theory Spec2Isabelle
  imports Main
begin

section \<open>Strings as the Python code handles them\<close>

text \<open>
  The scripts work on pandas tables whose cells are Python strings or the missing value
  NaN. A \<open>string\<close> here is a list of bytes: the string functions below are Python's
  \<open>str.lower\<close>, \<open>str.title\<close> and \<open>str.strip\<close> on ASCII text (a byte above 127 is
  left alone and counts as neither a letter nor a blank).
\<close>

datatype cell = NaN | Str string

definition is_upper :: "char \<Rightarrow> bool" where
  "is_upper c = (65 \<le> (of_char c :: nat) \<and> (of_char c :: nat) \<le> 90)"

definition is_lower :: "char \<Rightarrow> bool" where
  "is_lower c = (97 \<le> (of_char c :: nat) \<and> (of_char c :: nat) \<le> 122)"

definition is_cased :: "char \<Rightarrow> bool" where
  "is_cased c = (is_upper c \<or> is_lower c)"

definition is_digit :: "char \<Rightarrow> bool" where
  "is_digit c = (48 \<le> (of_char c :: nat) \<and> (of_char c :: nat) \<le> 57)"

definition is_space :: "char \<Rightarrow> bool" where
  "is_space c = ((9 \<le> (of_char c :: nat) \<and> (of_char c :: nat) \<le> 13)
                 \<or> (28 \<le> (of_char c :: nat) \<and> (of_char c :: nat) \<le> 32))"

definition lower_char :: "char \<Rightarrow> char" where
  "lower_char c = (if is_upper c then char_of ((of_char c :: nat) + 32) else c)"

definition upper_char :: "char \<Rightarrow> char" where
  "upper_char c = (if is_lower c then char_of ((of_char c :: nat) - 32) else c)"

definition lower :: "string \<Rightarrow> string" where
  "lower s = map lower_char s"

text \<open>
  \<open>str.title\<close>: a cased character that follows a cased character is lowered, any
  other character is put in upper case.
\<close>

fun title_from :: "bool \<Rightarrow> string \<Rightarrow> string" where
  "title_from prev [] = []"
| "title_from prev (c # cs) =
     (if prev then lower_char c else upper_char c) # title_from (is_cased c) cs"

definition title :: "string \<Rightarrow> string" where
  "title s = title_from False s"

definition strip :: "string \<Rightarrow> string" where
  "strip s = rev (dropWhile is_space (rev (dropWhile is_space s)))"

text \<open>The pandas column methods: \<open>.fillna('')\<close> and \<open>.str.title()\<close>, which keeps NaN.\<close>

definition fillna_empty :: "cell \<Rightarrow> string" where
  "fillna_empty c = (case c of NaN \<Rightarrow> [] | Str s \<Rightarrow> s)"

definition str_title :: "cell \<Rightarrow> cell" where
  "str_title c = (case c of NaN \<Rightarrow> NaN | Str s \<Rightarrow> Str (title s))"

text \<open>Python's truth value of a cell: NaN is a non-zero float, a string is true unless empty.\<close>

definition truthy :: "cell \<Rightarrow> bool" where
  "truthy c = (case c of NaN \<Rightarrow> True | Str s \<Rightarrow> s \<noteq> [])"


section \<open>run_RBC_validation.py: the rule cascade\<close>

text \<open>
  A golden table is a CSV file with the columns \<open>qid\<close> and \<open>label\<close>;
  \<open>set_index('qid')['label'].to_dict()\<close> makes a dictionary of its rows in file order,
  so a later row with the same key replaces an earlier one. The keys are stored as read.
\<close>

type_synonym golden_csv = "(cell \<times> cell) list"
type_synonym golden_map = "cell \<rightharpoonup> cell"

definition to_dict :: "golden_csv \<Rightarrow> golden_map" where
  "to_dict rows = fold (\<lambda>(k, v) m. m(k \<mapsto> v)) rows Map.empty"

definition load_golden_rules ::
  "golden_csv \<Rightarrow> golden_csv \<Rightarrow> golden_csv \<Rightarrow> golden_map \<times> golden_map \<times> golden_map" where
  "load_golden_rules instance_csv culture_csv heritage_csv =
     (to_dict instance_csv, to_dict culture_csv, to_dict heritage_csv)"

text \<open>
  The provenance tags of the scripts: a rule hit is tagged \<open>QID\<close>, a row the rules
  leave open \<open>Agnostic\<close>, a row the fallback model has labelled \<open>ML\<close>.
\<close>

definition RULE :: string where "RULE = ''QID''"
definition UNRESOLVED :: string where "UNRESOLVED = ''Agnostic''"
definition FALLBACK :: string where "FALLBACK = ''ML''"
definition AGNOSTIC :: string where "AGNOSTIC = ''Cultural Agnostic''"

text \<open>
  An entity row as the cascade reads it: \<open>row.get(field, [])\<close> gives the list stored
  under the field, and the empty list when the row has no such field.
\<close>

type_synonym entity = "string \<rightharpoonup> string list"

definition row_get :: "entity \<Rightarrow> string \<Rightarrow> string list" where
  "row_get row field = (case row field of None \<Rightarrow> [] | Some qids \<Rightarrow> qids)"

text \<open>
  One \<open>for qid in ...\<close> loop of \<open>rule_based_classifier\<close>: the label of the first
  identifier whose lower-cased form the table maps to a true value; \<open>None\<close> when the
  loop runs to its end.
\<close>

fun first_label :: "golden_map \<Rightarrow> string list \<Rightarrow> cell option" where
  "first_label m [] = None"
| "first_label m (qid # qids) =
     (case m (Str (lower qid)) of
        None \<Rightarrow> first_label m qids
      | Some label \<Rightarrow> if truthy label then Some label else first_label m qids)"

definition rule_based_classifier ::
  "entity \<Rightarrow> golden_map \<Rightarrow> golden_map \<Rightarrow> golden_map \<Rightarrow> cell \<times> string" where
  "rule_based_classifier row instance_map culture_map heritage_map =
     (case first_label heritage_map (row_get row ''heritage_status'') of
        Some label \<Rightarrow> (label, ''QID'')
      | None \<Rightarrow>
     (case first_label culture_map (row_get row ''part_of_culture'') of
        Some label \<Rightarrow> (label, ''QID'')
      | None \<Rightarrow>
     (case first_label instance_map (row_get row ''instance_of'') of
        Some label \<Rightarrow> (label, ''QID'')
      | None \<Rightarrow> (Str ''Cultural Agnostic'', ''Agnostic''))))"

text \<open>
  An identifier matches a table when the lookup of the loop succeeds on it: the table
  has its lower-cased form as a key, with a label that Python takes for true.
\<close>

definition matches :: "golden_map \<Rightarrow> string \<Rightarrow> bool" where
  "matches m qid = (case m (Str (lower qid)) of None \<Rightarrow> False | Some label \<Rightarrow> truthy label)"

definition label_of :: "golden_map \<Rightarrow> string \<Rightarrow> cell" where
  "label_of m qid = (case m (Str (lower qid)) of None \<Rightarrow> NaN | Some label \<Rightarrow> label)"


section \<open>run_RBC_validation.py: the batch run\<close>

datatype py_error =
    LiteralError      \<comment> \<open>the ValueError or SyntaxError of \<open>ast.literal_eval\<close>\<close>
  | NotIterable       \<comment> \<open>the TypeError of \<open>for qid in value\<close> on a value that cannot be iterated\<close>
  | NoLower           \<comment> \<open>the AttributeError of \<open>qid.lower()\<close> on a value without that method\<close>
  | ColumnsError      \<comment> \<open>the ValueError of \<open>df[['prediction', 'source']] = results\<close>\<close>
  | StrAccessorError  \<comment> \<open>the AttributeError of \<open>.str\<close> on a column without any string\<close>
  | LengthError       \<comment> \<open>the ValueError of \<open>pd.Series(values, index)\<close> on unequal lengths\<close>
  | ModelNotFound     \<comment> \<open>\<open>parser.error\<close>: the model file does not exist\<close>
  | ModelError string \<comment> \<open>whatever \<open>model.predict\<close> raises\<close>

text \<open>
  The values that \<open>ast.literal_eval\<close> can give: a string; a bytes object; a list, tuple,
  set or dict (\<open>PSeq\<close>, with the elements, or the keys of a dict, in the order in which a
  \<open>for\<close> loop visits them); any other value (a number, \<open>None\<close>, a truth value), which
  can neither be iterated nor has a method \<open>lower\<close>.
\<close>

datatype pyval = PStr string | PBytes string | PSeq "pyval list" | PAtom

text \<open>The list of identifier strings \<open>ids\<close> as a Python value.\<close>

definition id_list :: "string list \<Rightarrow> pyval" where
  "id_list ids = PSeq (map PStr ids)"

text \<open>
  \<open>ast.literal_eval\<close> belongs to Python's library, and the run takes it as a parameter.
  \<open>literal_eval_qids\<close> below stands for it in the examples: it reads the \<open>str\<close> of a
  list of strings as the enrichment script writes it (an opening bracket, string literals
  in single or double quotes without escapes, separated by commas, a closing bracket), one
  character at a time, and refuses any other text. It agrees with the library on the texts
  it accepts and on every text that is no Python literal; the literals of other shapes,
  which the library accepts, are outside it.
\<close>

datatype lit_state =
    LStart | LOpen | LItem | LInStr char string | LAfter | LClosed | LBad

fun lit_step :: "lit_state \<times> string list \<Rightarrow> char \<Rightarrow> lit_state \<times> string list" where
  "lit_step (LStart, acc) c =
     (if c = CHR '' '' \<or> c = CHR 0x09 then (LStart, acc)
      else if c = CHR ''['' then (LOpen, acc) else (LBad, acc))"
| "lit_step (LOpen, acc) c =
     (if c = CHR '' '' then (LOpen, acc)
      else if c = CHR '']'' then (LClosed, acc)
      else if c = CHR 0x27 \<or> c = CHR 0x22 then (LInStr c [], acc) else (LBad, acc))"
| "lit_step (LItem, acc) c =
     (if c = CHR '' '' then (LItem, acc)
      else if c = CHR '']'' then (LClosed, acc)
      else if c = CHR 0x27 \<or> c = CHR 0x22 then (LInStr c [], acc) else (LBad, acc))"
| "lit_step (LInStr q s, acc) c =
     (if c = q then (LAfter, acc @ [s])
      else if c = CHR 0x5C \<or> c = CHR 0x0A then (LBad, acc) else (LInStr q (s @ [c]), acc))"
| "lit_step (LAfter, acc) c =
     (if c = CHR '' '' then (LAfter, acc)
      else if c = CHR '','' then (LItem, acc)
      else if c = CHR '']'' then (LClosed, acc) else (LBad, acc))"
| "lit_step (LClosed, acc) c =
     (if c = CHR '' '' \<or> c = CHR 0x09 then (LClosed, acc) else (LBad, acc))"
| "lit_step (LBad, acc) c = (LBad, acc)"

definition literal_eval_qids :: "string \<Rightarrow> py_error + pyval" where
  "literal_eval_qids s =
     (case foldl lit_step (LStart, []) s of
        (LClosed, acc) \<Rightarrow> Inr (id_list acc)
      | _ \<Rightarrow> Inl LiteralError)"

text \<open>
  The enriched CSV: one row per entity with its \<open>qid\<close>, its ground-truth \<open>label\<close> and
  one cell per relationship column. \<open>main\<close> replaces every cell of the six list columns,
  column by column, by \<open>ast.literal_eval(x) if isinstance(x, str) else []\<close>; an
  exception of \<open>literal_eval\<close> is not caught and ends the run.
\<close>

record enriched_row =
  e_qid :: cell
  e_label :: cell
  e_cells :: "string \<Rightarrow> cell"

definition list_fields :: "string list" where
  "list_fields = [''country_of_origin'', ''country'', ''located_in'',
                  ''part_of_culture'', ''instance_of'', ''heritage_status'']"

definition parse_cell :: "(string \<Rightarrow> py_error + pyval) \<Rightarrow> cell \<Rightarrow> py_error + pyval" where
  "parse_cell literal_eval x = (case x of Str s \<Rightarrow> literal_eval s | NaN \<Rightarrow> Inr (PSeq []))"

text \<open>\<open>column.apply(f)\<close> with an \<open>f\<close> that may raise: the first exception ends it.\<close>

fun apply_column :: "('a \<Rightarrow> py_error + 'b) \<Rightarrow> 'a list \<Rightarrow> py_error + 'b list" where
  "apply_column f [] = Inr []"
| "apply_column f (x # xs) =
     (case f x of
        Inl e \<Rightarrow> Inl e
      | Inr y \<Rightarrow> (case apply_column f xs of Inl e \<Rightarrow> Inl e | Inr ys \<Rightarrow> Inr (y # ys)))"

fun parse_fields ::
  "(string \<Rightarrow> py_error + pyval) \<Rightarrow> enriched_row list \<Rightarrow> string list
     \<Rightarrow> (string \<rightharpoonup> pyval list) \<Rightarrow> py_error + (string \<rightharpoonup> pyval list)" where
  "parse_fields literal_eval df [] cols = Inr cols"
| "parse_fields literal_eval df (field # more_fields) cols =
     (case apply_column (\<lambda>r. parse_cell literal_eval (e_cells r field)) df of
        Inl e \<Rightarrow> Inl e
      | Inr col \<Rightarrow> parse_fields literal_eval df more_fields (cols(field \<mapsto> col)))"

text \<open>The row of the parsed table at position \<open>i\<close>, as the classifier reads it.\<close>

definition row_at :: "(string \<rightharpoonup> pyval list) \<Rightarrow> nat \<Rightarrow> (string \<rightharpoonup> pyval)" where
  "row_at cols i field = (case cols field of None \<Rightarrow> None | Some col \<Rightarrow> Some (col ! i))"

text \<open>
  \<open>rule_based_classifier\<close> on the parsed cells, which may hold any value. A \<open>for\<close> loop
  over a string visits its characters, over a bytes object its bytes (numbers), and raises
  on a value that cannot be iterated; \<open>qid.lower()\<close> raises on a value that is neither a
  string nor a bytes object; a bytes object in lower case is no key of a table.
\<close>

definition iterate :: "pyval \<Rightarrow> py_error + pyval list" where
  "iterate v =
     (case v of
        PStr s \<Rightarrow> Inr (map (\<lambda>c. PStr [c]) s)
      | PBytes b \<Rightarrow> Inr (map (\<lambda>c. PAtom) b)
      | PSeq xs \<Rightarrow> Inr xs
      | PAtom \<Rightarrow> Inl NotIterable)"

fun first_label_raw :: "golden_map \<Rightarrow> pyval list \<Rightarrow> py_error + cell option" where
  "first_label_raw m [] = Inr None"
| "first_label_raw m (PStr qid # qids) =
     (case m (Str (lower qid)) of
        None \<Rightarrow> first_label_raw m qids
      | Some label \<Rightarrow> if truthy label then Inr (Some label) else first_label_raw m qids)"
| "first_label_raw m (PBytes qid # qids) = first_label_raw m qids"
| "first_label_raw m (PSeq xs # qids) = Inl NoLower"
| "first_label_raw m (PAtom # qids) = Inl NoLower"

definition loop_raw :: "golden_map \<Rightarrow> (string \<rightharpoonup> pyval) \<Rightarrow> string \<Rightarrow> py_error + cell option" where
  "loop_raw m row field =
     (case iterate (case row field of None \<Rightarrow> PSeq [] | Some v \<Rightarrow> v) of
        Inl e \<Rightarrow> Inl e
      | Inr qids \<Rightarrow> first_label_raw m qids)"

definition rule_based_classifier_raw ::
  "(string \<rightharpoonup> pyval) \<Rightarrow> golden_map \<Rightarrow> golden_map \<Rightarrow> golden_map \<Rightarrow> py_error + cell \<times> string" where
  "rule_based_classifier_raw row instance_map culture_map heritage_map =
     (case loop_raw heritage_map row ''heritage_status'' of
        Inl e \<Rightarrow> Inl e
      | Inr (Some label) \<Rightarrow> Inr (label, ''QID'')
      | Inr None \<Rightarrow>
     (case loop_raw culture_map row ''part_of_culture'' of
        Inl e \<Rightarrow> Inl e
      | Inr (Some label) \<Rightarrow> Inr (label, ''QID'')
      | Inr None \<Rightarrow>
     (case loop_raw instance_map row ''instance_of'' of
        Inl e \<Rightarrow> Inl e
      | Inr (Some label) \<Rightarrow> Inr (label, ''QID'')
      | Inr None \<Rightarrow> Inr (Str ''Cultural Agnostic'', ''Agnostic''))))"

record pred_row =
  qid :: cell
  label :: cell
  prediction :: cell
  source :: cell

text \<open>
  \<open>df[['prediction', 'source']] = results\<close>, \<open>df['prediction'].str.title()\<close> and the
  four columns that are written.
\<close>

definition output_row :: "enriched_row \<Rightarrow> cell \<times> string \<Rightarrow> pred_row" where
  "output_row r res =
     \<lparr>qid = e_qid r, label = e_label r, prediction = str_title (fst res), source = Str (snd res)\<rparr>"

text \<open>
  \<open>main\<close> of run_RBC_validation.py: the table it writes to \<open>validation_rules.csv\<close>, or
  the exception that ends the run before anything is written. On a table without rows
  \<open>progress_apply\<close> gives back a copy of the table, and the assignment of its many
  columns to the two new ones raises. When no row has a string for its prediction (every
  hit has found a missing label), the new column holds numbers only and \<open>.str\<close> raises.
\<close>

definition main_rbc ::
  "(string \<Rightarrow> py_error + pyval) \<Rightarrow> golden_csv \<Rightarrow> golden_csv \<Rightarrow> golden_csv
     \<Rightarrow> enriched_row list \<Rightarrow> py_error + pred_row list" where
  "main_rbc literal_eval instance_csv culture_csv heritage_csv df =
     (case parse_fields literal_eval df list_fields Map.empty of
        Inl e \<Rightarrow> Inl e
      | Inr cols \<Rightarrow>
         (case load_golden_rules instance_csv culture_csv heritage_csv of
            (instance_map, culture_map, heritage_map) \<Rightarrow>
         (case apply_column
                 (\<lambda>i. rule_based_classifier_raw (row_at cols i)
                         instance_map culture_map heritage_map)
                 [0..<length df] of
            Inl e \<Rightarrow> Inl e
          | Inr results \<Rightarrow>
              if results = [] then Inl ColumnsError
              else if \<forall>res \<in> set results. fst res = NaN then Inl StrAccessorError
              else Inr (map (\<lambda>(r, res). output_row r res) (zip df results)))))"


section \<open>apply_fallback_validation.py and apply_fallback_test.py\<close>

text \<open>
  The raw dataset has the columns \<open>item\<close>, \<open>name\<close> and \<open>description\<close>.
  \<open>load_raw_text\<close> takes the identifier out of \<open>item\<close> with the pattern \<open>(Q\d+)\<close>:
  the leftmost \<open>Q\<close> that a digit follows, with all the digits after it, and NaN when
  there is none. When the table has rows and no \<open>item\<close> at all, the column holds numbers
  only and \<open>.str\<close> raises.
\<close>

record raw_row =
  item :: cell
  name :: cell
  description :: cell

fun extract_qid :: "string \<Rightarrow> cell" where
  "extract_qid [] = NaN"
| "extract_qid (c # cs) =
     (if c = CHR ''Q'' \<and> takeWhile is_digit cs \<noteq> [] then Str (c # takeWhile is_digit cs)
      else extract_qid cs)"

record text_row =
  t_qid :: cell
  t_name :: cell
  t_description :: cell

definition load_raw_text :: "raw_row list \<Rightarrow> py_error + text_row list" where
  "load_raw_text df =
     (if df \<noteq> [] \<and> (\<forall>r \<in> set df. item r = NaN) then Inl StrAccessorError
      else Inr (map (\<lambda>r. \<lparr>t_qid = (case item r of NaN \<Rightarrow> NaN | Str s \<Rightarrow> extract_qid s),
                          t_name = name r, t_description = description r\<rparr>) df))"

text \<open>
  The merged table has the columns of the predictions, the two text columns and \<open>text\<close>
  (the fields \<open>m_name\<close>, \<open>m_description\<close>, \<open>m_text\<close>).
  \<open>preds.merge(raw, on='qid', how='left')\<close> keeps the rows of \<open>preds\<close> in their order
  and gives one row for every row of \<open>raw\<close> with the same key (pandas also takes two
  missing keys for equal), or one row with missing text when no row of \<open>raw\<close> has it.
\<close>

record merged_row = pred_row +
  m_name :: cell
  m_description :: cell
  m_text :: string

definition joined_text :: "cell \<Rightarrow> cell \<Rightarrow> string" where
  "joined_text n d = strip (fillna_empty n @ '' '' @ fillna_empty d)"

definition merged :: "pred_row \<Rightarrow> cell \<Rightarrow> cell \<Rightarrow> merged_row" where
  "merged p n d =
     \<lparr>qid = qid p, label = label p, prediction = prediction p, source = source p,
      m_name = n, m_description = d, m_text = joined_text n d\<rparr>"

definition merge_row :: "text_row list \<Rightarrow> pred_row \<Rightarrow> merged_row list" where
  "merge_row raw p =
     (case filter (\<lambda>t. t_qid t = qid p) raw of
        [] \<Rightarrow> [merged p NaN NaN]
      | ts \<Rightarrow> map (\<lambda>t. merged p (t_name t) (t_description t)) ts)"

definition merge_predictions_with_text :: "pred_row list \<Rightarrow> text_row list \<Rightarrow> merged_row list" where
  "merge_predictions_with_text preds raw = concat (map (merge_row raw) preds)"

text \<open>
  The mask of \<open>apply_ml_fallback\<close>: the prediction, with NaN read as the empty string
  and in lower case, is \<open>cultural agnostic\<close>, and the text is not empty.
\<close>

definition mask :: "merged_row \<Rightarrow> bool" where
  "mask r = (lower (fillna_empty (prediction r)) = ''cultural agnostic'' \<and> length (m_text r) > 0)"

text \<open>
  \<open>df.loc[mask, 'prediction'] = pd.Series(preds, index=df.loc[mask].index).str.title()\<close>
  and \<open>df.loc[mask, 'source'] = 'ML'\<close>: the rows of the mask take the predictions in
  order. The series has as many values as the mask has rows (\<open>pd.Series\<close> raises
  otherwise, see \<open>apply_ml_fallback\<close>), so the predictions never run out.
\<close>

fun overwrite :: "merged_row list \<Rightarrow> string list \<Rightarrow> merged_row list" where
  "overwrite [] ps = []"
| "overwrite (r # rs) ps =
     (if mask r then
        (case ps of
           [] \<Rightarrow> r # overwrite rs []
         | p # ps' \<Rightarrow> r\<lparr>prediction := Str (title p), source := Str ''ML''\<rparr> # overwrite rs ps')
      else r # overwrite rs ps)"

text \<open>\<open>df['source'] = df['source'].fillna('QID')\<close>\<close>

definition fill_source :: "merged_row \<Rightarrow> merged_row" where
  "fill_source r = (case source r of NaN \<Rightarrow> r\<lparr>source := Str ''QID''\<rparr> | Str s \<Rightarrow> r)"

text \<open>What the function prints: the warning with the number of missing predictions.\<close>

datatype log_line = MissingPredictions nat

definition warnings :: "merged_row list \<Rightarrow> log_line list" where
  "warnings df =
     (let missing = length (filter (\<lambda>r. prediction r = NaN) df)
      in if missing \<noteq> 0 then [MissingPredictions missing] else [])"

text \<open>
  The fallback model is a parameter: \<open>model.predict\<close> maps a batch of texts to a batch
  of labels, or raises.
\<close>

type_synonym predictor = "string list \<Rightarrow> py_error + string list"

definition finish :: "merged_row list \<Rightarrow> merged_row list \<times> log_line list" where
  "finish df = (let df' = map fill_source df in (df', warnings df'))"

definition apply_ml_fallback ::
  "merged_row list \<Rightarrow> predictor \<Rightarrow> py_error + (merged_row list \<times> log_line list)" where
  "apply_ml_fallback df predict =
     (if \<exists>r \<in> set df. mask r then
        (case predict (map m_text (filter mask df)) of
           Inl e \<Rightarrow> Inl e
         | Inr preds \<Rightarrow>
             if length preds \<noteq> length (filter mask df) then Inl LengthError
             else Inr (finish (overwrite df preds)))
      else Inr (finish df))"

text \<open>
  The two \<open>main\<close> functions, from the tables they have read on: \<open>preds\<close> is the table
  of predictions as \<open>read_csv\<close> gives it, \<open>raw_csv\<close> the raw dataset. The model file may
  be missing (\<open>None\<close>); the files of the output directory are a store from paths to
  tables, and \<open>to_csv\<close> is the only write (\<open>mkdir\<close> before it makes the directory and
  no file). The validation run writes the columns
  \<open>qid\<close>, \<open>label\<close>, \<open>prediction\<close>, \<open>source\<close>, the test run \<open>qid\<close>, \<open>prediction\<close>,
  \<open>source\<close>.
\<close>

type_synonym 'row files = "string \<rightharpoonup> 'row list"

definition validation_columns :: "merged_row \<Rightarrow> pred_row" where
  "validation_columns r =
     \<lparr>qid = qid r, label = label r, prediction = prediction r, source = source r\<rparr>"

definition test_columns :: "merged_row \<Rightarrow> cell \<times> cell \<times> cell" where
  "test_columns r = (qid r, prediction r, source r)"

definition run_fallback ::
  "(merged_row \<Rightarrow> 'row) \<Rightarrow> pred_row list \<Rightarrow> raw_row list \<Rightarrow> predictor option \<Rightarrow> string
     \<Rightarrow> 'row files \<Rightarrow> (py_error + log_line list) \<times> 'row files" where
  "run_fallback columns preds raw_csv model_file output fs =
     (case load_raw_text raw_csv of
        Inl e \<Rightarrow> (Inl e, fs)
      | Inr raw \<Rightarrow>
         (let df = merge_predictions_with_text preds raw
          in case model_file of
               None \<Rightarrow> (Inl ModelNotFound, fs)
             | Some model \<Rightarrow>
                 (case apply_ml_fallback df model of
                    Inl e \<Rightarrow> (Inl e, fs)
                  | Inr (df', log) \<Rightarrow> (Inr log, fs(output \<mapsto> map columns df')))))"

definition main_validation ::
  "pred_row list \<Rightarrow> raw_row list \<Rightarrow> predictor option \<Rightarrow> string
     \<Rightarrow> pred_row files \<Rightarrow> (py_error + log_line list) \<times> pred_row files" where
  "main_validation = run_fallback validation_columns"

definition main_test ::
  "pred_row list \<Rightarrow> raw_row list \<Rightarrow> predictor option \<Rightarrow> string
     \<Rightarrow> (cell \<times> cell \<times> cell) files \<Rightarrow> (py_error + log_line list) \<times> (cell \<times> cell \<times> cell) files" where
  "main_test = run_fallback test_columns"


section \<open>Sample tables\<close>

text \<open>
  Small inputs at which the properties below are instantiated: three predictions of the
  rule run (two left open by the rules, one rule hit), the raw rows of the same entities
  (the second without name and description), a model that answers \<open>intangible\<close> for
  every text, and a model that raises.
\<close>

definition sample_preds :: "pred_row list" where
  "sample_preds =
     [\<lparr>qid = Str ''Q1'', label = Str ''cultural representative'',
       prediction = Str ''Cultural Agnostic'', source = Str ''Agnostic''\<rparr>,
      \<lparr>qid = Str ''Q2'', label = Str ''cultural agnostic'',
       prediction = Str ''Cultural Agnostic'', source = Str ''Agnostic''\<rparr>,
      \<lparr>qid = Str ''Q3'', label = Str ''cultural exclusive'',
       prediction = Str ''Cultural Exclusive'', source = Str ''QID''\<rparr>]"

definition sample_raw :: "raw_row list" where
  "sample_raw =
     [\<lparr>item = Str ''http://www.wikidata.org/entity/Q1'',
       name = Str ''Diwali'', description = Str ''festival''\<rparr>,
      \<lparr>item = Str ''http://www.wikidata.org/entity/Q2'', name = NaN, description = NaN\<rparr>,
      \<lparr>item = Str ''http://www.wikidata.org/entity/Q3'',
       name = Str ''Pizza'', description = Str ''dish''\<rparr>]"

definition sample_model :: predictor where
  "sample_model texts = Inr (map (\<lambda>t. ''intangible'') texts)"

definition failing_model :: predictor where
  "failing_model texts = Inl (ModelError ''predict'')"


section \<open>Properties of the rule cascade\<close>

subsection \<open>Auxiliary facts\<close>


lemma lower_char_idem: "lower_char (lower_char c) = lower_char c"
  by (simp add: lower_char_def is_upper_def)

lemma lower_idem: "lower (lower s) = lower s"
  by (simp add: lower_def lower_char_idem)

lemma length_title_from: "length (title_from b s) = length s"
  by (induction s arbitrary: b) simp_all

lemma title_empty_iff: "title s = [] \<longleftrightarrow> s = []"
  by (cases s) (simp_all add: title_def)

lemma first_label_None_iff:
  "first_label m qs = None \<longleftrightarrow> (\<forall>q \<in> set qs. \<not> matches m q)"
  by (induction qs) (auto simp: matches_def split: option.splits)

lemma first_label_first:
  "\<forall>p \<in> set pre. \<not> matches m p \<Longrightarrow> matches m q \<Longrightarrow>
     first_label m (pre @ q # post) = Some (label_of m q)"
  by (induction pre) (auto simp: matches_def label_of_def split: option.splits)

lemma first_label_truthy: "first_label m qs = Some l \<Longrightarrow> truthy l"
  by (induction qs) (auto split: option.splits if_splits)

lemma first_label_empty_label:
  "first_label (m(k \<mapsto> Str [])) qs = first_label (m(k := None)) qs"
  by (induction qs) (auto simp: truthy_def split: option.splits)

lemma first_label_unreachable:
  "lower s \<noteq> s \<Longrightarrow> first_label (m(Str s \<mapsto> l)) qs = first_label (m(Str s := None)) qs"
proof (induction qs)
  case Nil
  then show ?case by simp
next
  case (Cons q qs)
  have "lower q \<noteq> s" using Cons.prems lower_idem [of q] by auto
  with Cons show ?case by (auto split: option.splits)
qed

lemma first_label_lower:
  "map lower qs = map lower qs' \<Longrightarrow> first_label m qs = first_label m qs'"
proof (induction qs arbitrary: qs')
  case Nil
  then show ?case by simp
next
  case (Cons q qs)
  then obtain q' rest where "qs' = q' # rest" "lower q = lower q'" "map lower qs = map lower rest"
    by (cases qs') auto
  with Cons.IH [of rest] show ?case by (auto split: option.splits)
qed

lemma to_dict_snoc: "to_dict (rows @ [(k, v)]) = (to_dict rows)(k \<mapsto> v)"
  by (simp add: to_dict_def)

lemma to_dict_unique:
  "(k, v) \<in> set rows \<Longrightarrow> \<forall>(k', v') \<in> set rows. k' = k \<longrightarrow> v' = v \<Longrightarrow> to_dict rows k = Some v"
proof (induction rows rule: rev_induct)
  case Nil
  then show ?case by simp
next
  case (snoc x rows)
  obtain k' v' where x: "x = (k', v')" by (cases x)
  show ?case
  proof (cases "k' = k")
    case True
    with snoc.prems x show ?thesis by (auto simp: to_dict_snoc)
  next
    case False
    with snoc x show ?thesis by (auto simp: to_dict_snoc)
  qed
qed

lemma matches_empty_label: "m (Str (lower q)) = Some (Str []) \<Longrightarrow> \<not> matches m q"
  by (simp add: matches_def truthy_def)

text \<open>The three exits of the cascade and its last line.\<close>

lemma classifier_heritage:
  assumes "row_get row ''heritage_status'' = pre @ q # post"
    and "\<forall>p \<in> set pre. \<not> matches heritage_map p" and "matches heritage_map q"
  shows "rule_based_classifier row instance_map culture_map heritage_map
           = (label_of heritage_map q, ''QID'')"
proof -
  from assms have "first_label heritage_map (row_get row ''heritage_status'')
      = Some (label_of heritage_map q)"
    by (simp add: first_label_first)
  then show ?thesis by (simp add: rule_based_classifier_def)
qed

lemma classifier_culture:
  assumes "\<forall>p \<in> set (row_get row ''heritage_status''). \<not> matches heritage_map p"
    and "row_get row ''part_of_culture'' = pre @ q # post"
    and "\<forall>p \<in> set pre. \<not> matches culture_map p" and "matches culture_map q"
  shows "rule_based_classifier row instance_map culture_map heritage_map
           = (label_of culture_map q, ''QID'')"
proof -
  from assms(1) have "first_label heritage_map (row_get row ''heritage_status'') = None"
    by (simp add: first_label_None_iff)
  moreover from assms(2-4) have "first_label culture_map (row_get row ''part_of_culture'')
      = Some (label_of culture_map q)"
    by (simp add: first_label_first)
  ultimately show ?thesis by (simp add: rule_based_classifier_def)
qed

lemma classifier_instance:
  assumes "\<forall>p \<in> set (row_get row ''heritage_status''). \<not> matches heritage_map p"
    and "\<forall>p \<in> set (row_get row ''part_of_culture''). \<not> matches culture_map p"
    and "row_get row ''instance_of'' = pre @ q # post"
    and "\<forall>p \<in> set pre. \<not> matches instance_map p" and "matches instance_map q"
  shows "rule_based_classifier row instance_map culture_map heritage_map
           = (label_of instance_map q, ''QID'')"
proof -
  from assms(1) have "first_label heritage_map (row_get row ''heritage_status'') = None"
    by (simp add: first_label_None_iff)
  moreover from assms(2) have "first_label culture_map (row_get row ''part_of_culture'') = None"
    by (simp add: first_label_None_iff)
  moreover from assms(3-5) have "first_label instance_map (row_get row ''instance_of'')
      = Some (label_of instance_map q)"
    by (simp add: first_label_first)
  ultimately show ?thesis by (simp add: rule_based_classifier_def)
qed

lemma classifier_default:
  assumes "\<forall>p \<in> set (row_get row ''heritage_status''). \<not> matches heritage_map p"
    and "\<forall>p \<in> set (row_get row ''part_of_culture''). \<not> matches culture_map p"
    and "\<forall>p \<in> set (row_get row ''instance_of''). \<not> matches instance_map p"
  shows "rule_based_classifier row instance_map culture_map heritage_map
           = (Str ''Cultural Agnostic'', ''Agnostic'')"
  using assms by (simp add: rule_based_classifier_def first_label_None_iff [symmetric])

lemma to_dict_one: "to_dict [(k, v)] = [k \<mapsto> v]" and to_dict_Nil: "to_dict [] = Map.empty"
  by (simp_all add: to_dict_def)

subsection \<open>Priority of the three lists\<close>

text \<open>
  Claim C1 speaks of an identifier of the heritage list that is present in the heritage
  table. The cascade does not find every such identifier: the heritage table with the
  row \<open>Q1\<close>, \<open>Tangible\<close> has the key \<open>Q1\<close> after loading, the entity has \<open>Q1\<close> in
  its heritage list and \<open>q2\<close>, a key of the culture table, in its culture list, and the
  result is the label of the culture table.
\<close>

theorem heritage_present_culture_wins_counterexample:
  "to_dict [(Str ''Q1'', Str ''Tangible'')] (Str ''Q1'') = Some (Str ''Tangible'')
   \<and> rule_based_classifier
        [''heritage_status'' \<mapsto> [''Q1''], ''part_of_culture'' \<mapsto> [''q2'']]
        (to_dict []) (to_dict [(Str ''q2'', Str ''Oral Tradition'')])
        (to_dict [(Str ''Q1'', Str ''Tangible'')])
      = (Str ''Oral Tradition'', ''QID'')"
proof -
  have e0: "[Str ''Q1'' \<mapsto> Str ''Tangible''] (Str ''Q1'') = Some (Str ''Tangible'')"
    by simp
  have e1: "rule_based_classifier
        [''heritage_status'' \<mapsto> [''Q1''], ''part_of_culture'' \<mapsto> [''q2'']]
        Map.empty [Str ''q2'' \<mapsto> Str ''Oral Tradition''] [Str ''Q1'' \<mapsto> Str ''Tangible'']
      = (Str ''Oral Tradition'', ''QID'')"
    by code_simp
  show ?thesis
    unfolding to_dict_one to_dict_Nil by (rule conjI [OF e0 e1])
qed

text \<open>
  Claim C1, as the code has it. An identifier matches a table when its lower-case form is
  a key of the table and the label under that key is true for Python (not the empty
  string). The cascade consults \<open>heritage_status\<close>, then \<open>part_of_culture\<close>, then
  \<open>instance_of\<close>: when the heritage list has a matching identifier, the result is the
  heritage table's label of the first matching identifier in list order, tagged as a rule
  hit, whatever the other two lists and tables hold; when no heritage identifier matches
  and the culture list has a matching identifier, the result is the culture table's label
  of the first one, whatever the instance list and table hold; when neither of these
  lists has a match and the instance list has one, the result is the instance table's
  label of the first one.
\<close>

theorem cascade_priority:
  "(\<forall>pre q post.
      row_get row ''heritage_status'' = pre @ q # post \<and>
      (\<forall>p \<in> set pre. \<not> matches heritage_map p) \<and> matches heritage_map q
      \<longrightarrow> rule_based_classifier row instance_map culture_map heritage_map
            = (label_of heritage_map q, RULE))
   \<and> (\<forall>pre q post.
      (\<forall>p \<in> set (row_get row ''heritage_status''). \<not> matches heritage_map p) \<and>
      row_get row ''part_of_culture'' = pre @ q # post \<and>
      (\<forall>p \<in> set pre. \<not> matches culture_map p) \<and> matches culture_map q
      \<longrightarrow> rule_based_classifier row instance_map culture_map heritage_map
            = (label_of culture_map q, RULE))
   \<and> (\<forall>pre q post.
      (\<forall>p \<in> set (row_get row ''heritage_status''). \<not> matches heritage_map p) \<and>
      (\<forall>p \<in> set (row_get row ''part_of_culture''). \<not> matches culture_map p) \<and>
      row_get row ''instance_of'' = pre @ q # post \<and>
      (\<forall>p \<in> set pre. \<not> matches instance_map p) \<and> matches instance_map q
      \<longrightarrow> rule_based_classifier row instance_map culture_map heritage_map
            = (label_of instance_map q, RULE))
   \<and> (\<forall>m q. matches m q = (\<exists>l. m (Str (lower q)) = Some l \<and> l \<noteq> Str ''''))
   \<and> (\<forall>m q l. m (Str (lower q)) = Some l \<longrightarrow> label_of m q = l)"
proof -
  have a: "\<forall>pre q post.
      row_get row ''heritage_status'' = pre @ q # post \<and>
      (\<forall>p \<in> set pre. \<not> matches heritage_map p) \<and> matches heritage_map q
      \<longrightarrow> rule_based_classifier row instance_map culture_map heritage_map
            = (label_of heritage_map q, RULE)"
    using classifier_heritage by (simp add: RULE_def)
  have b: "\<forall>pre q post.
      (\<forall>p \<in> set (row_get row ''heritage_status''). \<not> matches heritage_map p) \<and>
      row_get row ''part_of_culture'' = pre @ q # post \<and>
      (\<forall>p \<in> set pre. \<not> matches culture_map p) \<and> matches culture_map q
      \<longrightarrow> rule_based_classifier row instance_map culture_map heritage_map
            = (label_of culture_map q, RULE)"
    using classifier_culture by (simp add: RULE_def)
  have c: "\<forall>pre q post.
      (\<forall>p \<in> set (row_get row ''heritage_status''). \<not> matches heritage_map p) \<and>
      (\<forall>p \<in> set (row_get row ''part_of_culture''). \<not> matches culture_map p) \<and>
      row_get row ''instance_of'' = pre @ q # post \<and>
      (\<forall>p \<in> set pre. \<not> matches instance_map p) \<and> matches instance_map q
      \<longrightarrow> rule_based_classifier row instance_map culture_map heritage_map
            = (label_of instance_map q, RULE)"
    using classifier_instance by (simp add: RULE_def)
  have d: "\<forall>m q. matches m q = (\<exists>l. m (Str (lower q)) = Some l \<and> l \<noteq> Str '''')"
    by (auto simp: matches_def truthy_def split: option.splits cell.splits)
  have e: "\<forall>m q l. m (Str (lower q)) = Some l \<longrightarrow> label_of m q = l"
    by (simp add: label_of_def)
  from a b c d e show ?thesis by (intro conjI)
qed

text \<open>
  The theorem at three entities: one with a heritage match behind a non-matching
  identifier and with a culture match; one with a culture match and an instance match
  only; one with an instance match only.
\<close>

theorem cascade_priority_witness:
  "rule_based_classifier
      [''heritage_status'' \<mapsto> [''q9'', ''Q1'', ''q3''], ''part_of_culture'' \<mapsto> [''q2'']]
      [Str ''q2'' \<mapsto> Str ''Instance'']
      [Str ''q2'' \<mapsto> Str ''Oral Tradition'']
      [Str ''q1'' \<mapsto> Str ''Tangible'', Str ''q3'' \<mapsto> Str ''Other'']
    = (Str ''Tangible'', ''QID'')
   \<and> rule_based_classifier
      [''heritage_status'' \<mapsto> [''q9''], ''part_of_culture'' \<mapsto> [''q2''], ''instance_of'' \<mapsto> [''q2'']]
      [Str ''q2'' \<mapsto> Str ''Instance'']
      [Str ''q2'' \<mapsto> Str ''Oral Tradition'']
      [Str ''q1'' \<mapsto> Str ''Tangible'']
    = (Str ''Oral Tradition'', ''QID'')
   \<and> rule_based_classifier
      [''heritage_status'' \<mapsto> [''q9''], ''part_of_culture'' \<mapsto> [''q8''], ''instance_of'' \<mapsto> [''q7'', ''Q2'']]
      [Str ''q2'' \<mapsto> Str ''Instance'']
      [Str ''q2'' \<mapsto> Str ''Oral Tradition'']
      [Str ''q1'' \<mapsto> Str ''Tangible'']
    = (Str ''Instance'', ''QID'')"
proof -
  let ?row1 = "[''heritage_status'' \<mapsto> [''q9'', ''Q1'', ''q3''], ''part_of_culture'' \<mapsto> [''q2'']]"
  let ?row2 = "[''heritage_status'' \<mapsto> [''q9''], ''part_of_culture'' \<mapsto> [''q2''],
               ''instance_of'' \<mapsto> [''q2'']]"
  let ?row3 = "[''heritage_status'' \<mapsto> [''q9''], ''part_of_culture'' \<mapsto> [''q8''],
               ''instance_of'' \<mapsto> [''q7'', ''Q2'']]"
  let ?im = "[Str ''q2'' \<mapsto> Str ''Instance'']"
  let ?cm = "[Str ''q2'' \<mapsto> Str ''Oral Tradition'']"
  let ?hm1 = "[Str ''q1'' \<mapsto> Str ''Tangible'', Str ''q3'' \<mapsto> Str ''Other'']"
  let ?hm2 = "[Str ''q1'' \<mapsto> Str ''Tangible'']"
  have h1: "row_get ?row1 ''heritage_status'' = [''q9''] @ ''Q1'' # [''q3''] \<and>
      (\<forall>p \<in> set [''q9'']. \<not> matches ?hm1 p) \<and> matches ?hm1 ''Q1''"
    by code_simp
  have l1: "label_of ?hm1 ''Q1'' = Str ''Tangible''" and r: "RULE = ''QID''"
    by code_simp+
  have h2: "(\<forall>p \<in> set (row_get ?row2 ''heritage_status''). \<not> matches ?hm2 p) \<and>
      row_get ?row2 ''part_of_culture'' = [] @ ''q2'' # [] \<and>
      (\<forall>p \<in> set []. \<not> matches ?cm p) \<and> matches ?cm ''q2''"
    by code_simp
  have l2: "label_of ?cm ''q2'' = Str ''Oral Tradition''"
    by code_simp
  have h3: "(\<forall>p \<in> set (row_get ?row3 ''heritage_status''). \<not> matches ?hm2 p) \<and>
      (\<forall>p \<in> set (row_get ?row3 ''part_of_culture''). \<not> matches ?cm p) \<and>
      row_get ?row3 ''instance_of'' = [''q7''] @ ''Q2'' # [] \<and>
      (\<forall>p \<in> set [''q7'']. \<not> matches ?im p) \<and> matches ?im ''Q2''"
    by code_simp
  have l3: "label_of ?im ''Q2'' = Str ''Instance''"
    by code_simp
  from cascade_priority [of ?row1 ?hm1 ?im ?cm, THEN conjunct1, rule_format, OF h1]
  have c1: "rule_based_classifier ?row1 ?im ?cm ?hm1 = (Str ''Tangible'', ''QID'')"
    by (simp only: l1 r)
  from cascade_priority [of ?row2 ?hm2 ?im ?cm, THEN conjunct2, THEN conjunct1, rule_format, OF h2]
  have c2: "rule_based_classifier ?row2 ?im ?cm ?hm2 = (Str ''Oral Tradition'', ''QID'')"
    by (simp only: l2 r)
  from cascade_priority [of ?row3 ?hm2 ?im ?cm,
      THEN conjunct2, THEN conjunct2, THEN conjunct1, rule_format, OF h3]
  have c3: "rule_based_classifier ?row3 ?im ?cm ?hm2 = (Str ''Instance'', ''QID'')"
    by (simp only: l3 r)
  show ?thesis by (rule conjI [OF c1 conjI [OF c2 c3]])
qed

subsection \<open>No match\<close>

text \<open>
  Claim C6. When no identifier of the three consulted lists matches its table, and in
  particular when the three lists are empty, the classifier returns the prediction
  \<open>Cultural Agnostic\<close> with the tag of an unresolved row.
\<close>

theorem no_match_agnostic:
  "((\<forall>q \<in> set (row_get row ''heritage_status''). \<not> matches heritage_map q) \<and>
    (\<forall>q \<in> set (row_get row ''part_of_culture''). \<not> matches culture_map q) \<and>
    (\<forall>q \<in> set (row_get row ''instance_of''). \<not> matches instance_map q)
    \<longrightarrow> rule_based_classifier row instance_map culture_map heritage_map
          = (Str AGNOSTIC, UNRESOLVED))
   \<and> (row_get row ''heritage_status'' = [] \<and> row_get row ''part_of_culture'' = [] \<and>
      row_get row ''instance_of'' = []
      \<longrightarrow> rule_based_classifier row instance_map culture_map heritage_map
            = (Str AGNOSTIC, UNRESOLVED))"
  by (simp add: rule_based_classifier_def AGNOSTIC_def UNRESOLVED_def
        first_label_None_iff [symmetric])

text \<open>
  The theorem at an entity whose identifiers are in none of the tables under the right
  list, and at an entity without any list.
\<close>

theorem no_match_agnostic_witness:
  "rule_based_classifier
      [''heritage_status'' \<mapsto> [''q7''], ''part_of_culture'' \<mapsto> [''Q1'', ''q8''], ''instance_of'' \<mapsto> []]
      [Str ''q7'' \<mapsto> Str ''Instance''] [Str ''q7'' \<mapsto> Str ''Oral Tradition'']
      [Str ''q1'' \<mapsto> Str ''Tangible'']
    = (Str ''Cultural Agnostic'', ''Agnostic'')
   \<and> rule_based_classifier Map.empty
      [Str ''q7'' \<mapsto> Str ''Instance''] [Str ''q7'' \<mapsto> Str ''Oral Tradition'']
      [Str ''q1'' \<mapsto> Str ''Tangible'']
    = (Str ''Cultural Agnostic'', ''Agnostic'')"
proof -
  let ?row = "[''heritage_status'' \<mapsto> [''q7''], ''part_of_culture'' \<mapsto> [''Q1'', ''q8''],
              ''instance_of'' \<mapsto> []]"
  let ?im = "[Str ''q7'' \<mapsto> Str ''Instance'']"
  let ?cm = "[Str ''q7'' \<mapsto> Str ''Oral Tradition'']"
  let ?hm = "[Str ''q1'' \<mapsto> Str ''Tangible'']"
  have h1: "(\<forall>q \<in> set (row_get ?row ''heritage_status''). \<not> matches ?hm q) \<and>
    (\<forall>q \<in> set (row_get ?row ''part_of_culture''). \<not> matches ?cm q) \<and>
    (\<forall>q \<in> set (row_get ?row ''instance_of''). \<not> matches ?im q)"
    by code_simp
  have h2: "row_get Map.empty ''heritage_status'' = [] \<and>
      row_get Map.empty ''part_of_culture'' = [] \<and> row_get Map.empty ''instance_of'' = []"
    by (simp add: row_get_def)
  have t: "AGNOSTIC = ''Cultural Agnostic''" "UNRESOLVED = ''Agnostic''"
    by (simp_all add: AGNOSTIC_def UNRESOLVED_def)
  from no_match_agnostic [of ?row ?hm ?cm ?im, THEN conjunct1, rule_format, OF h1]
  have c1: "rule_based_classifier ?row ?im ?cm ?hm = (Str ''Cultural Agnostic'', ''Agnostic'')"
    by (simp only: t)
  from no_match_agnostic [of Map.empty ?hm ?cm ?im, THEN conjunct2, rule_format, OF h2]
  have c2: "rule_based_classifier Map.empty ?im ?cm ?hm = (Str ''Cultural Agnostic'', ''Agnostic'')"
    by (simp only: t)
  from c1 c2 show ?thesis by (rule conjI)
qed

subsection \<open>Empty labels\<close>

text \<open>
  Claim C10. An identifier that a table maps to the empty string is treated as if the
  table did not have it. In each of the three tables the classifier returns the same
  result with the entry as without it, and the empty string is never the prediction.
  The loops go on past such identifiers: behind identifiers with the empty label, the
  first matching identifier of the same list gives the result, in each of the three
  lists; a list with such identifiers only hands over to the next list; and when the
  three lists hold such identifiers only, the entity is left to the last line.
\<close>

theorem empty_label_as_absent:
  "rule_based_classifier row instance_map culture_map (heritage_map(k \<mapsto> Str ''''))
     = rule_based_classifier row instance_map culture_map (heritage_map(k := None))
   \<and> rule_based_classifier row instance_map (culture_map(k \<mapsto> Str '''')) heritage_map
     = rule_based_classifier row instance_map (culture_map(k := None)) heritage_map
   \<and> rule_based_classifier row (instance_map(k \<mapsto> Str '''')) culture_map heritage_map
     = rule_based_classifier row (instance_map(k := None)) culture_map heritage_map
   \<and> fst (rule_based_classifier row instance_map culture_map heritage_map) \<noteq> Str ''''
   \<and> (\<forall>pre q post.
        row_get row ''heritage_status'' = pre @ q # post \<and>
        (\<forall>p \<in> set pre. heritage_map (Str (lower p)) = Some (Str '''')) \<and>
        matches heritage_map q
        \<longrightarrow> rule_based_classifier row instance_map culture_map heritage_map
              = (label_of heritage_map q, RULE))
   \<and> (\<forall>pre q post.
        (\<forall>p \<in> set (row_get row ''heritage_status''). heritage_map (Str (lower p)) = Some (Str '''')) \<and>
        row_get row ''part_of_culture'' = pre @ q # post \<and>
        (\<forall>p \<in> set pre. culture_map (Str (lower p)) = Some (Str '''')) \<and>
        matches culture_map q
        \<longrightarrow> rule_based_classifier row instance_map culture_map heritage_map
              = (label_of culture_map q, RULE))
   \<and> (\<forall>pre q post.
        (\<forall>p \<in> set (row_get row ''heritage_status''). heritage_map (Str (lower p)) = Some (Str '''')) \<and>
        (\<forall>p \<in> set (row_get row ''part_of_culture''). culture_map (Str (lower p)) = Some (Str '''')) \<and>
        row_get row ''instance_of'' = pre @ q # post \<and>
        (\<forall>p \<in> set pre. instance_map (Str (lower p)) = Some (Str '''')) \<and>
        matches instance_map q
        \<longrightarrow> rule_based_classifier row instance_map culture_map heritage_map
              = (label_of instance_map q, RULE))
   \<and> ((\<forall>p \<in> set (row_get row ''heritage_status''). heritage_map (Str (lower p)) = Some (Str '''')) \<and>
       (\<forall>p \<in> set (row_get row ''part_of_culture''). culture_map (Str (lower p)) = Some (Str '''')) \<and>
       (\<forall>p \<in> set (row_get row ''instance_of''). instance_map (Str (lower p)) = Some (Str ''''))
        \<longrightarrow> rule_based_classifier row instance_map culture_map heritage_map
              = (Str AGNOSTIC, UNRESOLVED))"
proof -
  have ne: "fst (rule_based_classifier row instance_map culture_map heritage_map) \<noteq> Str ''''"
    by (auto simp: rule_based_classifier_def truthy_def split: option.splits
          dest!: first_label_truthy)
  have eq1: "rule_based_classifier row instance_map culture_map (heritage_map(k \<mapsto> Str ''''))
     = rule_based_classifier row instance_map culture_map (heritage_map(k := None))"
    and eq2: "rule_based_classifier row instance_map (culture_map(k \<mapsto> Str '''')) heritage_map
     = rule_based_classifier row instance_map (culture_map(k := None)) heritage_map"
    and eq3: "rule_based_classifier row (instance_map(k \<mapsto> Str '''')) culture_map heritage_map
     = rule_based_classifier row (instance_map(k := None)) culture_map heritage_map"
    by (simp_all add: rule_based_classifier_def first_label_empty_label split: option.splits)
  have skip: "\<forall>p \<in> set qs. \<not> matches m p" if "\<forall>p \<in> set qs. m (Str (lower p)) = Some (Str '''')"
    for m qs
    using that matches_empty_label by auto
  have a: "\<forall>pre q post.
        row_get row ''heritage_status'' = pre @ q # post \<and>
        (\<forall>p \<in> set pre. heritage_map (Str (lower p)) = Some (Str '''')) \<and>
        matches heritage_map q
        \<longrightarrow> rule_based_classifier row instance_map culture_map heritage_map
              = (label_of heritage_map q, RULE)"
  proof (intro allI impI, elim conjE)
    fix pre q post
    assume 1: "row_get row ''heritage_status'' = pre @ q # post"
      and 2: "\<forall>p \<in> set pre. heritage_map (Str (lower p)) = Some (Str '''')"
      and 3: "matches heritage_map q"
    show "rule_based_classifier row instance_map culture_map heritage_map
              = (label_of heritage_map q, RULE)"
      unfolding RULE_def by (rule classifier_heritage [OF 1 skip [OF 2] 3])
  qed
  have b: "\<forall>pre q post.
        (\<forall>p \<in> set (row_get row ''heritage_status''). heritage_map (Str (lower p)) = Some (Str '''')) \<and>
        row_get row ''part_of_culture'' = pre @ q # post \<and>
        (\<forall>p \<in> set pre. culture_map (Str (lower p)) = Some (Str '''')) \<and>
        matches culture_map q
        \<longrightarrow> rule_based_classifier row instance_map culture_map heritage_map
              = (label_of culture_map q, RULE)"
  proof (intro allI impI, elim conjE)
    fix pre q post
    assume 0: "\<forall>p \<in> set (row_get row ''heritage_status''). heritage_map (Str (lower p)) = Some (Str '''')"
      and 1: "row_get row ''part_of_culture'' = pre @ q # post"
      and 2: "\<forall>p \<in> set pre. culture_map (Str (lower p)) = Some (Str '''')"
      and 3: "matches culture_map q"
    show "rule_based_classifier row instance_map culture_map heritage_map
              = (label_of culture_map q, RULE)"
      unfolding RULE_def by (rule classifier_culture [OF skip [OF 0] 1 skip [OF 2] 3])
  qed
  have c: "\<forall>pre q post.
        (\<forall>p \<in> set (row_get row ''heritage_status''). heritage_map (Str (lower p)) = Some (Str '''')) \<and>
        (\<forall>p \<in> set (row_get row ''part_of_culture''). culture_map (Str (lower p)) = Some (Str '''')) \<and>
        row_get row ''instance_of'' = pre @ q # post \<and>
        (\<forall>p \<in> set pre. instance_map (Str (lower p)) = Some (Str '''')) \<and>
        matches instance_map q
        \<longrightarrow> rule_based_classifier row instance_map culture_map heritage_map
              = (label_of instance_map q, RULE)"
  proof (intro allI impI, elim conjE)
    fix pre q post
    assume 0: "\<forall>p \<in> set (row_get row ''heritage_status''). heritage_map (Str (lower p)) = Some (Str '''')"
      and 00: "\<forall>p \<in> set (row_get row ''part_of_culture''). culture_map (Str (lower p)) = Some (Str '''')"
      and 1: "row_get row ''instance_of'' = pre @ q # post"
      and 2: "\<forall>p \<in> set pre. instance_map (Str (lower p)) = Some (Str '''')"
      and 3: "matches instance_map q"
    show "rule_based_classifier row instance_map culture_map heritage_map
              = (label_of instance_map q, RULE)"
      unfolding RULE_def
      by (rule classifier_instance [OF skip [OF 0] skip [OF 00] 1 skip [OF 2] 3])
  qed
  have d: "(\<forall>p \<in> set (row_get row ''heritage_status''). heritage_map (Str (lower p)) = Some (Str '''')) \<and>
       (\<forall>p \<in> set (row_get row ''part_of_culture''). culture_map (Str (lower p)) = Some (Str '''')) \<and>
       (\<forall>p \<in> set (row_get row ''instance_of''). instance_map (Str (lower p)) = Some (Str ''''))
        \<longrightarrow> rule_based_classifier row instance_map culture_map heritage_map
              = (Str AGNOSTIC, UNRESOLVED)"
  proof (intro impI, elim conjE)
    assume 0: "\<forall>p \<in> set (row_get row ''heritage_status''). heritage_map (Str (lower p)) = Some (Str '''')"
      and 1: "\<forall>p \<in> set (row_get row ''part_of_culture''). culture_map (Str (lower p)) = Some (Str '''')"
      and 2: "\<forall>p \<in> set (row_get row ''instance_of''). instance_map (Str (lower p)) = Some (Str '''')"
    show "rule_based_classifier row instance_map culture_map heritage_map
              = (Str AGNOSTIC, UNRESOLVED)"
      unfolding AGNOSTIC_def UNRESOLVED_def
      by (rule classifier_default [OF skip [OF 0] skip [OF 1] skip [OF 2]])
  qed
  from eq1 eq2 eq3 ne a b c d show ?thesis by (intro conjI)
qed

text \<open>
  The theorem at four entities whose lists begin with \<open>q1\<close>, an identifier with the
  empty label: a later identifier of the heritage list is found; the culture list is
  reached behind a heritage list of such identifiers; the instance list is reached behind
  two such lists; and an entity with such identifiers only is left open.
\<close>

theorem empty_label_as_absent_witness:
  "rule_based_classifier [''heritage_status'' \<mapsto> [''q1'', ''q2'']] Map.empty Map.empty
       [Str ''q1'' \<mapsto> Str '''', Str ''q2'' \<mapsto> Str ''Other'']
     = (Str ''Other'', ''QID'')
   \<and> rule_based_classifier
       [''heritage_status'' \<mapsto> [''q1''], ''part_of_culture'' \<mapsto> [''q1'', ''q2'']]
       Map.empty [Str ''q1'' \<mapsto> Str '''', Str ''q2'' \<mapsto> Str ''Oral Tradition'']
       [Str ''q1'' \<mapsto> Str '''']
     = (Str ''Oral Tradition'', ''QID'')
   \<and> rule_based_classifier
       [''heritage_status'' \<mapsto> [''q1''], ''part_of_culture'' \<mapsto> [''q1''],
        ''instance_of'' \<mapsto> [''q1'', ''q2'']]
       [Str ''q1'' \<mapsto> Str '''', Str ''q2'' \<mapsto> Str ''Instance'']
       [Str ''q1'' \<mapsto> Str ''''] [Str ''q1'' \<mapsto> Str '''']
     = (Str ''Instance'', ''QID'')
   \<and> rule_based_classifier
       [''heritage_status'' \<mapsto> [''q1''], ''part_of_culture'' \<mapsto> [''q1''],
        ''instance_of'' \<mapsto> [''q1'']]
       [Str ''q1'' \<mapsto> Str ''''] [Str ''q1'' \<mapsto> Str ''''] [Str ''q1'' \<mapsto> Str '''']
     = (Str ''Cultural Agnostic'', ''Agnostic'')"
proof -
  let ?e = "[Str ''q1'' \<mapsto> Str '''']"
  let ?hm = "[Str ''q1'' \<mapsto> Str '''', Str ''q2'' \<mapsto> Str ''Other'']"
  let ?cm = "[Str ''q1'' \<mapsto> Str '''', Str ''q2'' \<mapsto> Str ''Oral Tradition'']"
  let ?im = "[Str ''q1'' \<mapsto> Str '''', Str ''q2'' \<mapsto> Str ''Instance'']"
  let ?r1 = "[''heritage_status'' \<mapsto> [''q1'', ''q2'']]"
  let ?r2 = "[''heritage_status'' \<mapsto> [''q1''], ''part_of_culture'' \<mapsto> [''q1'', ''q2'']]"
  let ?r3 = "[''heritage_status'' \<mapsto> [''q1''], ''part_of_culture'' \<mapsto> [''q1''],
        ''instance_of'' \<mapsto> [''q1'', ''q2'']]"
  let ?r4 = "[''heritage_status'' \<mapsto> [''q1''], ''part_of_culture'' \<mapsto> [''q1''],
        ''instance_of'' \<mapsto> [''q1'']]"
  note t = empty_label_as_absent
  have h1: "row_get ?r1 ''heritage_status'' = [''q1''] @ ''q2'' # [] \<and>
        (\<forall>p \<in> set [''q1'']. ?hm (Str (lower p)) = Some (Str '''')) \<and> matches ?hm ''q2''"
    by code_simp
  have h2: "(\<forall>p \<in> set (row_get ?r2 ''heritage_status''). ?e (Str (lower p)) = Some (Str '''')) \<and>
        row_get ?r2 ''part_of_culture'' = [''q1''] @ ''q2'' # [] \<and>
        (\<forall>p \<in> set [''q1'']. ?cm (Str (lower p)) = Some (Str '''')) \<and> matches ?cm ''q2''"
    by code_simp
  have h3: "(\<forall>p \<in> set (row_get ?r3 ''heritage_status''). ?e (Str (lower p)) = Some (Str '''')) \<and>
        (\<forall>p \<in> set (row_get ?r3 ''part_of_culture''). ?e (Str (lower p)) = Some (Str '''')) \<and>
        row_get ?r3 ''instance_of'' = [''q1''] @ ''q2'' # [] \<and>
        (\<forall>p \<in> set [''q1'']. ?im (Str (lower p)) = Some (Str '''')) \<and> matches ?im ''q2''"
    by code_simp
  have h4: "(\<forall>p \<in> set (row_get ?r4 ''heritage_status''). ?e (Str (lower p)) = Some (Str '''')) \<and>
       (\<forall>p \<in> set (row_get ?r4 ''part_of_culture''). ?e (Str (lower p)) = Some (Str '''')) \<and>
       (\<forall>p \<in> set (row_get ?r4 ''instance_of''). ?e (Str (lower p)) = Some (Str ''''))"
    by code_simp
  have l: "label_of ?hm ''q2'' = Str ''Other''" "label_of ?cm ''q2'' = Str ''Oral Tradition''"
    "label_of ?im ''q2'' = Str ''Instance''" "RULE = ''QID''" "AGNOSTIC = ''Cultural Agnostic''"
    "UNRESOLVED = ''Agnostic''"
    by code_simp+
  from t [where row = ?r1 and heritage_map = ?hm and culture_map = Map.empty
      and instance_map = Map.empty,
      THEN conjunct2, THEN conjunct2, THEN conjunct2, THEN conjunct2, THEN conjunct1,
      rule_format, OF h1]
  have c1: "rule_based_classifier ?r1 Map.empty Map.empty ?hm = (Str ''Other'', ''QID'')"
    by (simp only: l)
  from t [where row = ?r2 and heritage_map = ?e and culture_map = ?cm
      and instance_map = Map.empty,
      THEN conjunct2, THEN conjunct2, THEN conjunct2, THEN conjunct2, THEN conjunct2,
      THEN conjunct1, rule_format, OF h2]
  have c2: "rule_based_classifier ?r2 Map.empty ?cm ?e = (Str ''Oral Tradition'', ''QID'')"
    by (simp only: l)
  from t [where row = ?r3 and heritage_map = ?e and culture_map = ?e and instance_map = ?im,
      THEN conjunct2, THEN conjunct2, THEN conjunct2, THEN conjunct2, THEN conjunct2,
      THEN conjunct2, THEN conjunct1, rule_format, OF h3]
  have c3: "rule_based_classifier ?r3 ?im ?e ?e = (Str ''Instance'', ''QID'')"
    by (simp only: l)
  from t [where row = ?r4 and heritage_map = ?e and culture_map = ?e and instance_map = ?e,
      THEN conjunct2, THEN conjunct2, THEN conjunct2, THEN conjunct2, THEN conjunct2,
      THEN conjunct2, THEN conjunct2, rule_format, OF h4]
  have c4: "rule_based_classifier ?r4 ?e ?e ?e = (Str ''Cultural Agnostic'', ''Agnostic'')"
    by (simp only: l)
  show ?thesis by (rule conjI [OF c1 conjI [OF c2 conjI [OF c3 c4]]])
qed


subsection \<open>Casing of identifiers\<close>

lemma classifier_lower:
  assumes "\<forall>f. map lower (row_get row f) = map lower (row_get row' f)"
  shows "rule_based_classifier row instance_map culture_map heritage_map
       = rule_based_classifier row' instance_map culture_map heritage_map"
proof -
  have "first_label m (row_get row f) = first_label m (row_get row' f)" for m f
    by (rule first_label_lower) (simp add: assms)
  then show ?thesis by (simp add: rule_based_classifier_def split: option.splits)
qed

lemma to_dict_last:
  "\<forall>(k', v') \<in> set after. k' \<noteq> k \<Longrightarrow> to_dict (before @ (k, v) # after) k = Some v"
proof (induction after rule: rev_induct)
  case Nil
  then show ?case by (simp add: to_dict_snoc)
next
  case (snoc x after)
  obtain k' v' where x: "x = (k', v')" by (cases x)
  have "to_dict (before @ (k, v) # after @ [x]) = (to_dict (before @ (k, v) # after))(k' \<mapsto> v')"
    using to_dict_snoc [of "before @ (k, v) # after" k' v'] x by simp
  with snoc x show ?case by auto
qed

lemma to_dict_found:
  assumes "csv = before @ (Str (lower q), l) # after"
    and "\<forall>(k, v) \<in> set after. k \<noteq> Str (lower q)" and "truthy l"
  shows "matches (to_dict csv) q" and "label_of (to_dict csv) q = l"
proof -
  from assms(1,2) have "to_dict csv (Str (lower q)) = Some l"
    by (simp add: to_dict_last)
  with assms(3) show "matches (to_dict csv) q" and "label_of (to_dict csv) q = l"
    by (simp_all add: matches_def label_of_def)
qed

text \<open>
  The spec says of claim C4 that the table keys are put in lower case when the tables are
  loaded, so that an identifier is found in any casing of the table. The loader keeps the
  keys as they are in the file: a table with the key \<open>Q1\<close> has this key after loading,
  and the cascade, which looks up \<open>q1\<close>, finds it neither for the entity identifier
  \<open>Q1\<close> nor for \<open>q1\<close>.
\<close>

theorem golden_keys_as_loaded_counterexample:
  "to_dict [(Str ''Q1'', Str ''Tangible'')] (Str ''Q1'') = Some (Str ''Tangible'')
   \<and> rule_based_classifier [''heritage_status'' \<mapsto> [''Q1'']]
        (to_dict []) (to_dict []) (to_dict [(Str ''Q1'', Str ''Tangible'')])
      = (Str ''Cultural Agnostic'', ''Agnostic'')
   \<and> rule_based_classifier [''heritage_status'' \<mapsto> [''q1'']]
        (to_dict []) (to_dict []) (to_dict [(Str ''Q1'', Str ''Tangible'')])
      = (Str ''Cultural Agnostic'', ''Agnostic'')"
proof -
  have d: "to_dict [(Str ''Q1'', Str ''Tangible'')] = [Str ''Q1'' \<mapsto> Str ''Tangible'']"
    "to_dict [] = Map.empty"
    by (simp_all add: to_dict_def)
  have e0: "[Str ''Q1'' \<mapsto> Str ''Tangible''] (Str ''Q1'') = Some (Str ''Tangible'')"
    by simp
  have e1: "rule_based_classifier [''heritage_status'' \<mapsto> [''Q1'']]
        Map.empty Map.empty [Str ''Q1'' \<mapsto> Str ''Tangible'']
      = (Str ''Cultural Agnostic'', ''Agnostic'')"
    by code_simp
  have e2: "rule_based_classifier [''heritage_status'' \<mapsto> [''q1'']]
        Map.empty Map.empty [Str ''Q1'' \<mapsto> Str ''Tangible'']
      = (Str ''Cultural Agnostic'', ''Agnostic'')"
    by code_simp
  show ?thesis
    unfolding d by (rule conjI [OF e0 conjI [OF e1 e2]])
qed

text \<open>
  Claim C4, as the code has it. Only the identifier of the entity is put in lower case,
  at each lookup; table keys stay as loaded. So the casing of the entity's identifiers
  does not change the result. An identifier finds the label that the table file holds
  under its lower-case form (of the last row with that key, when there are several), in
  each of the three lists: in the heritage list behind identifiers that do not match; in
  the culture list, when the heritage list has no match, behind identifiers that do not
  match; and in the instance list, when the other two lists have no match. An entry whose
  key is not in lower case is never found, in any of the three tables: the result is the
  same with the entry as without it.
\<close>

theorem lookup_lowers_identifier_only:
  "((\<forall>f. map lower (row_get row f) = map lower (row_get row' f))
      \<longrightarrow> rule_based_classifier row instance_map culture_map heritage_map
          = rule_based_classifier row' instance_map culture_map heritage_map)
   \<and> (\<forall>pre q post before l after.
       row_get row ''heritage_status'' = pre @ q # post \<and>
       (\<forall>p \<in> set pre. \<not> matches (to_dict heritage_csv) p) \<and>
       heritage_csv = before @ (Str (lower q), l) # after \<and>
       (\<forall>(k, v) \<in> set after. k \<noteq> Str (lower q)) \<and> truthy l
      \<longrightarrow> rule_based_classifier row instance_map culture_map (to_dict heritage_csv) = (l, RULE))
   \<and> (\<forall>pre q post before l after.
       (\<forall>p \<in> set (row_get row ''heritage_status''). \<not> matches heritage_map p) \<and>
       row_get row ''part_of_culture'' = pre @ q # post \<and>
       (\<forall>p \<in> set pre. \<not> matches (to_dict culture_csv) p) \<and>
       culture_csv = before @ (Str (lower q), l) # after \<and>
       (\<forall>(k, v) \<in> set after. k \<noteq> Str (lower q)) \<and> truthy l
      \<longrightarrow> rule_based_classifier row instance_map (to_dict culture_csv) heritage_map = (l, RULE))
   \<and> (\<forall>pre q post before l after.
       (\<forall>p \<in> set (row_get row ''heritage_status''). \<not> matches heritage_map p) \<and>
       (\<forall>p \<in> set (row_get row ''part_of_culture''). \<not> matches culture_map p) \<and>
       row_get row ''instance_of'' = pre @ q # post \<and>
       (\<forall>p \<in> set pre. \<not> matches (to_dict instance_csv) p) \<and>
       instance_csv = before @ (Str (lower q), l) # after \<and>
       (\<forall>(k, v) \<in> set after. k \<noteq> Str (lower q)) \<and> truthy l
      \<longrightarrow> rule_based_classifier row (to_dict instance_csv) culture_map heritage_map = (l, RULE))
   \<and> (lower s \<noteq> s
      \<longrightarrow> rule_based_classifier row instance_map culture_map (heritage_map(Str s \<mapsto> l))
          = rule_based_classifier row instance_map culture_map (heritage_map(Str s := None))
        \<and> rule_based_classifier row instance_map (culture_map(Str s \<mapsto> l)) heritage_map
          = rule_based_classifier row instance_map (culture_map(Str s := None)) heritage_map
        \<and> rule_based_classifier row (instance_map(Str s \<mapsto> l)) culture_map heritage_map
          = rule_based_classifier row (instance_map(Str s := None)) culture_map heritage_map)"
proof -
  have a: "(\<forall>f. map lower (row_get row f) = map lower (row_get row' f))
      \<longrightarrow> rule_based_classifier row instance_map culture_map heritage_map
          = rule_based_classifier row' instance_map culture_map heritage_map"
    using classifier_lower by blast
  have b1: "\<forall>pre q post before l after.
       row_get row ''heritage_status'' = pre @ q # post \<and>
       (\<forall>p \<in> set pre. \<not> matches (to_dict heritage_csv) p) \<and>
       heritage_csv = before @ (Str (lower q), l) # after \<and>
       (\<forall>(k, v) \<in> set after. k \<noteq> Str (lower q)) \<and> truthy l
      \<longrightarrow> rule_based_classifier row instance_map culture_map (to_dict heritage_csv) = (l, RULE)"
  proof (intro allI impI, elim conjE)
    fix pre q post before l after
    assume 1: "row_get row ''heritage_status'' = pre @ q # post"
      and 2: "\<forall>p \<in> set pre. \<not> matches (to_dict heritage_csv) p"
      and 3: "heritage_csv = before @ (Str (lower q), l) # after"
      and 4: "\<forall>(k, v) \<in> set after. k \<noteq> Str (lower q)" and 5: "truthy l"
    from classifier_heritage [OF 1 2 to_dict_found(1) [OF 3 4 5]]
    show "rule_based_classifier row instance_map culture_map (to_dict heritage_csv) = (l, RULE)"
      unfolding RULE_def to_dict_found(2) [OF 3 4 5] .
  qed
  have b2: "\<forall>pre q post before l after.
       (\<forall>p \<in> set (row_get row ''heritage_status''). \<not> matches heritage_map p) \<and>
       row_get row ''part_of_culture'' = pre @ q # post \<and>
       (\<forall>p \<in> set pre. \<not> matches (to_dict culture_csv) p) \<and>
       culture_csv = before @ (Str (lower q), l) # after \<and>
       (\<forall>(k, v) \<in> set after. k \<noteq> Str (lower q)) \<and> truthy l
      \<longrightarrow> rule_based_classifier row instance_map (to_dict culture_csv) heritage_map = (l, RULE)"
  proof (intro allI impI, elim conjE)
    fix pre q post before l after
    assume 0: "\<forall>p \<in> set (row_get row ''heritage_status''). \<not> matches heritage_map p"
      and 1: "row_get row ''part_of_culture'' = pre @ q # post"
      and 2: "\<forall>p \<in> set pre. \<not> matches (to_dict culture_csv) p"
      and 3: "culture_csv = before @ (Str (lower q), l) # after"
      and 4: "\<forall>(k, v) \<in> set after. k \<noteq> Str (lower q)" and 5: "truthy l"
    from classifier_culture [OF 0 1 2 to_dict_found(1) [OF 3 4 5]]
    show "rule_based_classifier row instance_map (to_dict culture_csv) heritage_map = (l, RULE)"
      unfolding RULE_def to_dict_found(2) [OF 3 4 5] .
  qed
  have b3: "\<forall>pre q post before l after.
       (\<forall>p \<in> set (row_get row ''heritage_status''). \<not> matches heritage_map p) \<and>
       (\<forall>p \<in> set (row_get row ''part_of_culture''). \<not> matches culture_map p) \<and>
       row_get row ''instance_of'' = pre @ q # post \<and>
       (\<forall>p \<in> set pre. \<not> matches (to_dict instance_csv) p) \<and>
       instance_csv = before @ (Str (lower q), l) # after \<and>
       (\<forall>(k, v) \<in> set after. k \<noteq> Str (lower q)) \<and> truthy l
      \<longrightarrow> rule_based_classifier row (to_dict instance_csv) culture_map heritage_map = (l, RULE)"
  proof (intro allI impI, elim conjE)
    fix pre q post before l after
    assume 0: "\<forall>p \<in> set (row_get row ''heritage_status''). \<not> matches heritage_map p"
      and 00: "\<forall>p \<in> set (row_get row ''part_of_culture''). \<not> matches culture_map p"
      and 1: "row_get row ''instance_of'' = pre @ q # post"
      and 2: "\<forall>p \<in> set pre. \<not> matches (to_dict instance_csv) p"
      and 3: "instance_csv = before @ (Str (lower q), l) # after"
      and 4: "\<forall>(k, v) \<in> set after. k \<noteq> Str (lower q)" and 5: "truthy l"
    from classifier_instance [OF 0 00 1 2 to_dict_found(1) [OF 3 4 5]]
    show "rule_based_classifier row (to_dict instance_csv) culture_map heritage_map = (l, RULE)"
      unfolding RULE_def to_dict_found(2) [OF 3 4 5] .
  qed
  have c: "lower s \<noteq> s
      \<longrightarrow> rule_based_classifier row instance_map culture_map (heritage_map(Str s \<mapsto> l))
          = rule_based_classifier row instance_map culture_map (heritage_map(Str s := None))
        \<and> rule_based_classifier row instance_map (culture_map(Str s \<mapsto> l)) heritage_map
          = rule_based_classifier row instance_map (culture_map(Str s := None)) heritage_map
        \<and> rule_based_classifier row (instance_map(Str s \<mapsto> l)) culture_map heritage_map
          = rule_based_classifier row (instance_map(Str s := None)) culture_map heritage_map"
  proof
    assume "lower s \<noteq> s"
    then have "first_label (m(Str s \<mapsto> l)) qs = first_label (m(Str s := None)) qs" for m qs
      by (rule first_label_unreachable)
    then show "rule_based_classifier row instance_map culture_map (heritage_map(Str s \<mapsto> l))
          = rule_based_classifier row instance_map culture_map (heritage_map(Str s := None))
        \<and> rule_based_classifier row instance_map (culture_map(Str s \<mapsto> l)) heritage_map
          = rule_based_classifier row instance_map (culture_map(Str s := None)) heritage_map
        \<and> rule_based_classifier row (instance_map(Str s \<mapsto> l)) culture_map heritage_map
          = rule_based_classifier row (instance_map(Str s := None)) culture_map heritage_map"
      by (simp add: rule_based_classifier_def split: option.splits)
  qed
  from a b1 b2 b3 c show ?thesis by (intro conjI)
qed

text \<open>
  The theorem at the identifiers \<open>Q1\<close>, \<open>Q2\<close> and \<open>Q3\<close>, each behind an identifier that
  no table has: an entity is classified as its lower-case copy is; \<open>Q1\<close> finds the label of
  the heritage row \<open>q1\<close>, \<open>Q2\<close> that of the culture row \<open>q2\<close> and \<open>Q3\<close> that of the
  instance row \<open>q3\<close>; and \<open>Q1\<close> does not find an entry with the key \<open>Q1\<close>.
\<close>

theorem lookup_lowers_identifier_only_witness:
  "rule_based_classifier [''heritage_status'' \<mapsto> [''Q9'', ''Q1'']] Map.empty Map.empty
       [Str ''q1'' \<mapsto> Str ''Tangible'']
     = rule_based_classifier [''heritage_status'' \<mapsto> [''q9'', ''q1'']] Map.empty Map.empty
       [Str ''q1'' \<mapsto> Str ''Tangible'']
   \<and> rule_based_classifier [''heritage_status'' \<mapsto> [''Q9'', ''Q1'']]
       (to_dict [(Str ''q3'', Str ''Instance'')]) (to_dict [(Str ''q2'', Str ''Oral Tradition'')])
       (to_dict [(Str ''q1'', Str ''Tangible'')])
     = (Str ''Tangible'', ''QID'')
   \<and> rule_based_classifier
       [''heritage_status'' \<mapsto> [''Q9''], ''part_of_culture'' \<mapsto> [''Q8'', ''Q2'']]
       (to_dict [(Str ''q3'', Str ''Instance'')]) (to_dict [(Str ''q2'', Str ''Oral Tradition'')])
       (to_dict [(Str ''q1'', Str ''Tangible'')])
     = (Str ''Oral Tradition'', ''QID'')
   \<and> rule_based_classifier
       [''heritage_status'' \<mapsto> [''Q9''], ''part_of_culture'' \<mapsto> [''Q8''],
        ''instance_of'' \<mapsto> [''Q7'', ''Q3'']]
       (to_dict [(Str ''q3'', Str ''Instance'')]) (to_dict [(Str ''q2'', Str ''Oral Tradition'')])
       (to_dict [(Str ''q1'', Str ''Tangible'')])
     = (Str ''Instance'', ''QID'')
   \<and> rule_based_classifier [''heritage_status'' \<mapsto> [''Q9'', ''Q1'']] Map.empty Map.empty
       [Str ''Q1'' \<mapsto> Str ''Tangible'']
     = rule_based_classifier [''heritage_status'' \<mapsto> [''Q9'', ''Q1'']] Map.empty Map.empty
       (Map.empty(Str ''Q1'' := None))"
proof -
  let ?up = "[''heritage_status'' \<mapsto> [''Q9'', ''Q1'']]"
  let ?lo = "[''heritage_status'' \<mapsto> [''q9'', ''q1'']]"
  let ?r2 = "[''heritage_status'' \<mapsto> [''Q9''], ''part_of_culture'' \<mapsto> [''Q8'', ''Q2'']]"
  let ?r3 = "[''heritage_status'' \<mapsto> [''Q9''], ''part_of_culture'' \<mapsto> [''Q8''],
        ''instance_of'' \<mapsto> [''Q7'', ''Q3'']]"
  let ?hcsv = "[(Str ''q1'', Str ''Tangible'')]"
  let ?ccsv = "[(Str ''q2'', Str ''Oral Tradition'')]"
  let ?icsv = "[(Str ''q3'', Str ''Instance'')]"
  have h1: "map lower (row_get ?up f) = map lower (row_get ?lo f)" for f
  proof -
    have "map lower [''Q9'', ''Q1''] = map lower [''q9'', ''q1'']" by code_simp
    then show ?thesis
      by (simp add: row_get_def)
  qed
  have h2: "row_get ?up ''heritage_status'' = [''Q9''] @ ''Q1'' # [] \<and>
      (\<forall>p \<in> set [''Q9'']. \<not> matches (to_dict ?hcsv) p) \<and>
      ?hcsv = [] @ (Str (lower ''Q1''), Str ''Tangible'') # [] \<and>
      (\<forall>(k, v) \<in> set []. k \<noteq> Str (lower ''Q1'')) \<and> truthy (Str ''Tangible'')"
    unfolding to_dict_one by code_simp
  have h3: "(\<forall>p \<in> set (row_get ?r2 ''heritage_status''). \<not> matches (to_dict ?hcsv) p) \<and>
      row_get ?r2 ''part_of_culture'' = [''Q8''] @ ''Q2'' # [] \<and>
      (\<forall>p \<in> set [''Q8'']. \<not> matches (to_dict ?ccsv) p) \<and>
      ?ccsv = [] @ (Str (lower ''Q2''), Str ''Oral Tradition'') # [] \<and>
      (\<forall>(k, v) \<in> set []. k \<noteq> Str (lower ''Q2'')) \<and> truthy (Str ''Oral Tradition'')"
    unfolding to_dict_one by code_simp
  have h4: "(\<forall>p \<in> set (row_get ?r3 ''heritage_status''). \<not> matches (to_dict ?hcsv) p) \<and>
      (\<forall>p \<in> set (row_get ?r3 ''part_of_culture''). \<not> matches (to_dict ?ccsv) p) \<and>
      row_get ?r3 ''instance_of'' = [''Q7''] @ ''Q3'' # [] \<and>
      (\<forall>p \<in> set [''Q7'']. \<not> matches (to_dict ?icsv) p) \<and>
      ?icsv = [] @ (Str (lower ''Q3''), Str ''Instance'') # [] \<and>
      (\<forall>(k, v) \<in> set []. k \<noteq> Str (lower ''Q3'')) \<and> truthy (Str ''Instance'')"
    unfolding to_dict_one by code_simp
  have h5: "lower ''Q1'' \<noteq> ''Q1''" by code_simp
  have r: "RULE = ''QID''" by (simp add: RULE_def)
  note t = lookup_lowers_identifier_only
  from t [where row = ?up and row' = ?lo and instance_map = Map.empty
      and culture_map = Map.empty and heritage_map = "[Str ''q1'' \<mapsto> Str ''Tangible'']",
      THEN conjunct1, rule_format, OF h1]
  have c1: "rule_based_classifier ?up Map.empty Map.empty [Str ''q1'' \<mapsto> Str ''Tangible'']
     = rule_based_classifier ?lo Map.empty Map.empty [Str ''q1'' \<mapsto> Str ''Tangible'']" .
  from t [where row = ?up and instance_map = "to_dict ?icsv" and culture_map = "to_dict ?ccsv"
      and heritage_csv = ?hcsv,
      THEN conjunct2, THEN conjunct1, rule_format, OF h2]
  have c2: "rule_based_classifier ?up (to_dict ?icsv) (to_dict ?ccsv) (to_dict ?hcsv)
      = (Str ''Tangible'', ''QID'')"
    by (simp only: r)
  from t [where row = ?r2 and instance_map = "to_dict ?icsv" and culture_csv = ?ccsv
      and heritage_map = "to_dict ?hcsv",
      THEN conjunct2, THEN conjunct2, THEN conjunct1, rule_format, OF h3]
  have c3: "rule_based_classifier ?r2 (to_dict ?icsv) (to_dict ?ccsv) (to_dict ?hcsv)
      = (Str ''Oral Tradition'', ''QID'')"
    by (simp only: r)
  from t [where row = ?r3 and instance_csv = ?icsv and culture_map = "to_dict ?ccsv"
      and heritage_map = "to_dict ?hcsv",
      THEN conjunct2, THEN conjunct2, THEN conjunct2, THEN conjunct1, rule_format, OF h4]
  have c4: "rule_based_classifier ?r3 (to_dict ?icsv) (to_dict ?ccsv) (to_dict ?hcsv)
      = (Str ''Instance'', ''QID'')"
    by (simp only: r)
  from t [where row = ?up and instance_map = Map.empty and culture_map = Map.empty
      and heritage_map = Map.empty and s = "''Q1''" and l = "Str ''Tangible''",
      THEN conjunct2, THEN conjunct2, THEN conjunct2, THEN conjunct2, rule_format, OF h5,
      THEN conjunct1]
  have c5: "rule_based_classifier ?up Map.empty Map.empty [Str ''Q1'' \<mapsto> Str ''Tangible'']
     = rule_based_classifier ?up Map.empty Map.empty
       (Map.empty(Str ''Q1'' := None))" .
  show ?thesis by (rule conjI [OF c1 conjI [OF c2 conjI [OF c3 conjI [OF c4 c5]]]])
qed


section \<open>Properties of the batch run\<close>

subsection \<open>Auxiliary facts\<close>

lemma apply_column_Inl:
  "x \<in> set xs \<Longrightarrow> f x = Inl e \<Longrightarrow> \<exists>e'. apply_column f xs = Inl e'"
  by (induction xs) (auto split: sum.splits)

lemma apply_column_Inr:
  "\<forall>x \<in> set xs. \<exists>y. f x = Inr y \<Longrightarrow> \<exists>ys. apply_column f xs = Inr ys"
  by (induction xs) (auto split: sum.splits)

lemma apply_column_nth:
  "apply_column f xs = Inr ys \<Longrightarrow> length ys = length xs \<and> (\<forall>i < length xs. f (xs ! i) = Inr (ys ! i))"
proof (induction xs arbitrary: ys)
  case Nil
  then show ?case by simp
next
  case (Cons x xs)
  then obtain y ys' where y: "f x = Inr y" "apply_column f xs = Inr ys'" "ys = y # ys'"
    by (auto split: sum.splits)
  with Cons.IH [of ys'] show ?case
    by (auto simp: nth_Cons split: nat.splits)
qed

lemma parse_fields_Inl:
  "field \<in> set fs \<Longrightarrow> r \<in> set df \<Longrightarrow> parse_cell literal_eval (e_cells r field) = Inl e \<Longrightarrow>
     \<exists>e'. parse_fields literal_eval df fs cols = Inl e'"
proof (induction fs arbitrary: cols)
  case Nil
  then show ?case by simp
next
  case (Cons g fs)
  show ?case
  proof (cases "apply_column (\<lambda>r. parse_cell literal_eval (e_cells r g)) df")
    case (Inl e')
    then show ?thesis by simp
  next
    case (Inr col)
    have "field \<noteq> g"
    proof
      assume "field = g"
      with Cons.prems apply_column_Inl [of r df "\<lambda>r. parse_cell literal_eval (e_cells r g)" e]
      show False using Inr by auto
    qed
    with Cons.prems have "field \<in> set fs" by simp
    from Cons.IH [OF this Cons.prems(2,3)] Inr show ?thesis by simp
  qed
qed

lemma parse_fields_Inr:
  "\<forall>field \<in> set fs. \<forall>r \<in> set df. \<exists>l. parse_cell literal_eval (e_cells r field) = Inr l \<Longrightarrow>
     \<exists>cols'. parse_fields literal_eval df fs cols = Inr cols'"
proof (induction fs arbitrary: cols)
  case Nil
  then show ?case by simp
next
  case (Cons g fs)
  then have "\<forall>r \<in> set df. \<exists>l. (\<lambda>r. parse_cell literal_eval (e_cells r g)) r = Inr l"
    by simp
  then obtain col where "apply_column (\<lambda>r. parse_cell literal_eval (e_cells r g)) df = Inr col"
    using apply_column_Inr [of df "\<lambda>r. parse_cell literal_eval (e_cells r g)"] by blast
  with Cons show ?case by simp
qed

lemma parse_fields_other:
  "parse_fields literal_eval df fs cols = Inr cols' \<Longrightarrow> field \<notin> set fs \<Longrightarrow> cols' field = cols field"
proof (induction fs arbitrary: cols)
  case Nil
  then show ?case by simp
next
  case (Cons g fs)
  then show ?case by (auto split: sum.splits)
qed

lemma parse_fields_nth:
  "parse_fields literal_eval df fs cols = Inr cols' \<Longrightarrow> field \<in> set fs \<Longrightarrow> i < length df \<Longrightarrow>
     \<exists>col. cols' field = Some col \<and> parse_cell literal_eval (e_cells (df ! i) field) = Inr (col ! i)"
proof (induction fs arbitrary: cols)
  case Nil
  then show ?case by simp
next
  case (Cons g fs)
  from Cons.prems(1) obtain col where
    col: "apply_column (\<lambda>r. parse_cell literal_eval (e_cells r g)) df = Inr col"
    and rest: "parse_fields literal_eval df fs (cols(g \<mapsto> col)) = Inr cols'"
    by (auto split: sum.splits)
  show ?case
  proof (cases "field \<in> set fs")
    case True
    from Cons.IH [OF rest True Cons.prems(3)] show ?thesis .
  next
    case False
    with Cons.prems(2) have g: "field = g" by simp
    from parse_fields_other [OF rest False] g have "cols' field = Some col" by simp
    moreover from apply_column_nth [OF col] Cons.prems(3) g
    have "parse_cell literal_eval (e_cells (df ! i) field) = Inr (col ! i)" by simp
    ultimately show ?thesis by simp
  qed
qed


lemma apply_column_cong:
  "map f xs = map g ys \<Longrightarrow> apply_column f xs = apply_column g ys"
proof (induction xs arbitrary: ys)
  case Nil
  then show ?case by simp
next
  case (Cons x xs)
  then obtain y ys' where "ys = y # ys'" "f x = g y" "map f xs = map g ys'"
    by (cases ys) auto
  with Cons.IH [of ys'] show ?case by (simp split: sum.splits)
qed

lemma parse_fields_cong:
  "\<forall>field. map (\<lambda>r. parse_cell literal_eval (e_cells r field)) df
          = map (\<lambda>r. parse_cell literal_eval (e_cells r field)) df' \<Longrightarrow>
   parse_fields literal_eval df fs cols = parse_fields literal_eval df' fs cols"
proof (induction fs arbitrary: cols)
  case Nil
  then show ?case by simp
next
  case (Cons g fs)
  from Cons.prems have
    "apply_column (\<lambda>r. parse_cell literal_eval (e_cells r g)) df
     = apply_column (\<lambda>r. parse_cell literal_eval (e_cells r g)) df'"
    by (intro apply_column_cong) simp
  with Cons show ?case by (simp split: sum.splits)
qed

lemma apply_column_map:
  "\<forall>x \<in> set xs. f x = Inr (g x) \<Longrightarrow> apply_column f xs = Inr (map g xs)"
  by (induction xs) simp_all

lemma main_rbc_Inl:
  assumes "r \<in> set df" "field \<in> set list_fields" "e_cells r field = Str s" "literal_eval s = Inl e"
  shows "\<exists>e'. main_rbc literal_eval instance_csv culture_csv heritage_csv df = Inl e'"
proof -
  from assms have "parse_cell literal_eval (e_cells r field) = Inl e"
    by (simp add: parse_cell_def)
  from parse_fields_Inl [OF assms(2,1) this]
  obtain e' where "parse_fields literal_eval df list_fields Map.empty = Inl e'" by blast
  then show ?thesis by (simp add: main_rbc_def)
qed

lemma first_label_raw_strings: "first_label_raw m (map PStr ids) = Inr (first_label m ids)"
  by (induction ids) (simp_all split: option.splits)

lemma loop_raw_strings:
  "row field = Some (id_list ids) \<Longrightarrow> loop_raw m row field = Inr (first_label m ids)"
  by (simp add: loop_raw_def iterate_def id_list_def first_label_raw_strings)

lemma classifier_raw_strings:
  assumes "row ''heritage_status'' = Some (id_list (ids ''heritage_status''))"
    and "row ''part_of_culture'' = Some (id_list (ids ''part_of_culture''))"
    and "row ''instance_of'' = Some (id_list (ids ''instance_of''))"
  shows "rule_based_classifier_raw row instance_map culture_map heritage_map
       = Inr (rule_based_classifier (\<lambda>field. Some (ids field)) instance_map culture_map heritage_map)"
  using assms
  by (simp add: rule_based_classifier_raw_def rule_based_classifier_def row_get_def
        loop_raw_strings split: option.splits)

lemma zip_map_same: "map (\<lambda>(r, res). h r res) (zip df (map g df)) = map (\<lambda>r. h r (g r)) df"
  by (induction df) simp_all

lemma main_rbc_lists:
  assumes "\<forall>r \<in> set df. \<forall>field \<in> set list_fields.
             (case e_cells r field of
                NaN \<Rightarrow> ids r field = []
              | Str s \<Rightarrow> literal_eval s = Inr (id_list (ids r field)))"
  shows "main_rbc literal_eval instance_csv culture_csv heritage_csv df =
       (if df = [] then Inl ColumnsError
        else if \<forall>r \<in> set df.
                  fst (rule_based_classifier (\<lambda>field. Some (ids r field))
                         (to_dict instance_csv) (to_dict culture_csv) (to_dict heritage_csv)) = NaN
             then Inl StrAccessorError
        else Inr (map (\<lambda>r. output_row r
                    (rule_based_classifier (\<lambda>field. Some (ids r field))
                       (to_dict instance_csv) (to_dict culture_csv) (to_dict heritage_csv))) df))"
proof -
  let ?G = "\<lambda>r. rule_based_classifier (\<lambda>field. Some (ids r field))
                       (to_dict instance_csv) (to_dict culture_csv) (to_dict heritage_csv)"
  let ?raw = "\<lambda>cols i. rule_based_classifier_raw (row_at cols i)
                       (to_dict instance_csv) (to_dict culture_csv) (to_dict heritage_csv)"
  have pc: "parse_cell literal_eval (e_cells r field) = Inr (id_list (ids r field))"
    if "r \<in> set df" "field \<in> set list_fields" for r field
  proof (cases "e_cells r field")
    case NaN
    with assms that have "ids r field = []" by force
    with NaN show ?thesis by (simp add: parse_cell_def id_list_def)
  next
    case (Str s)
    with assms that have "literal_eval s = Inr (id_list (ids r field))" by force
    with Str show ?thesis by (simp add: parse_cell_def)
  qed
  then have "\<forall>field \<in> set list_fields. \<forall>r \<in> set df.
      \<exists>l. parse_cell literal_eval (e_cells r field) = Inr l"
    by blast
  from parse_fields_Inr [OF this]
  obtain cols where cols: "parse_fields literal_eval df list_fields Map.empty = Inr cols"
    by blast
  have row: "row_at cols i field = Some (id_list (ids (df ! i) field))"
    if "i < length df" "field \<in> set list_fields" for i field
  proof -
    from parse_fields_nth [OF cols that(2) that(1)] obtain col where
      "cols field = Some col" "parse_cell literal_eval (e_cells (df ! i) field) = Inr (col ! i)"
      by blast
    moreover from that have "parse_cell literal_eval (e_cells (df ! i) field)
        = Inr (id_list (ids (df ! i) field))"
      by (intro pc) simp_all
    ultimately show ?thesis by (simp add: row_at_def)
  qed
  have cl: "?raw cols i = Inr (?G (df ! i))" if "i < length df" for i
    by (rule classifier_raw_strings) (simp_all add: row [OF that] list_fields_def)
  have "apply_column (?raw cols) [0..<length df] = Inr (map (\<lambda>i. ?G (df ! i)) [0..<length df])"
    by (rule apply_column_map) (simp add: cl)
  moreover have "map (\<lambda>i. ?G (df ! i)) [0..<length df] = map ?G df"
    by (rule nth_equalityI) simp_all
  ultimately have res: "apply_column (?raw cols) [0..<length df] = Inr (map ?G df)"
    by simp
  show ?thesis
    by (simp add: main_rbc_def cols load_golden_rules_def res zip_map_same)
qed

lemma main_rbc_not_iterable:
  assumes "r \<in> set df" "e_cells r ''heritage_status'' = Str s" "literal_eval s = Inr PAtom"
  shows "\<exists>e'. main_rbc literal_eval instance_csv culture_csv heritage_csv df = Inl e'"
proof (cases "parse_fields literal_eval df list_fields Map.empty")
  case (Inl e)
  then show ?thesis by (simp add: main_rbc_def)
next
  case (Inr cols)
  let ?raw = "\<lambda>i. rule_based_classifier_raw (row_at cols i)
                       (to_dict instance_csv) (to_dict culture_csv) (to_dict heritage_csv)"
  from assms(1) obtain i where i: "i < length df" "df ! i = r"
    by (auto simp: in_set_conv_nth)
  have hs: "''heritage_status'' \<in> set list_fields" by (simp add: list_fields_def)
  from parse_fields_nth [OF Inr hs i(1)] obtain col where
    col: "cols ''heritage_status'' = Some col"
      "parse_cell literal_eval (e_cells (df ! i) ''heritage_status'') = Inr (col ! i)"
    by blast
  with assms i have "col ! i = PAtom" by (simp add: parse_cell_def)
  with col have "?raw i = Inl NotIterable"
    by (simp add: rule_based_classifier_raw_def loop_raw_def row_at_def iterate_def)
  moreover have "i \<in> set [0..<length df]" using i by simp
  ultimately obtain e' where "apply_column ?raw [0..<length df] = Inl e'"
    using apply_column_Inl [of i "[0..<length df]" ?raw NotIterable] by blast
  then show ?thesis by (simp add: main_rbc_def Inr load_golden_rules_def)
qed

lemma main_rbc_missing:
  assumes "literal_eval ''[]'' = Inr (id_list [])"
  shows "main_rbc literal_eval instance_csv culture_csv heritage_csv
           (map (\<lambda>r. r\<lparr>e_cells := (\<lambda>field. case e_cells r field of
                                        NaN \<Rightarrow> Str ''[]'' | Str s \<Rightarrow> Str s)\<rparr>) df)
         = main_rbc literal_eval instance_csv culture_csv heritage_csv df"
proof -
  let ?h = "\<lambda>r. r\<lparr>e_cells := (\<lambda>field. case e_cells r field of
                                        NaN \<Rightarrow> Str ''[]'' | Str s \<Rightarrow> Str s)\<rparr>"
  have "\<forall>field. map (\<lambda>r. parse_cell literal_eval (e_cells r field)) (map ?h df)
          = map (\<lambda>r. parse_cell literal_eval (e_cells r field)) df"
    using assms by (auto simp: parse_cell_def id_list_def split: cell.splits)
  from parse_fields_cong [OF this]
  have p: "parse_fields literal_eval (map ?h df) list_fields Map.empty
      = parse_fields literal_eval df list_fields Map.empty" .
  have z: "map (\<lambda>(r, res). output_row r res) (zip (map ?h df) results)
      = map (\<lambda>(r, res). output_row r res) (zip df results)" for results
    by (simp add: zip_map1 output_row_def case_prod_unfold)
  show ?thesis
    by (simp add: main_rbc_def load_golden_rules_def p z split: sum.splits)
qed

lemma lit_facts:
  "literal_eval_qids ''[q1, q2]'' = Inl LiteralError"
  "literal_eval_qids ''[]'' = Inr (id_list [])"
  "literal_eval_qids ''['Q2']'' = Inr (id_list [''Q2''])"
  by code_simp+

subsection \<open>Cells that do not parse\<close>

text \<open>
  The spec says of claim C5 that a relationship cell which cannot be parsed is treated as
  an empty list and never ends the run. The run has no handler around
  \<open>ast.literal_eval\<close>: the cell text \<open>[q1, q2]\<close>, a list of bare names and no Python
  literal, raises, and the run ends with the exception instead of a table.
\<close>

theorem malformed_cell_aborts_counterexample:
  "literal_eval_qids ''[q1, q2]'' = Inl LiteralError
   \<and> main_rbc literal_eval_qids [] [] []
       [\<lparr>e_qid = Str ''Q1'', e_label = Str ''cultural exclusive'',
         e_cells = (\<lambda>field. Str ''[]'')(''heritage_status'' := Str ''[q1, q2]'')\<rparr>]
     = Inl LiteralError"
proof -
  have "parse_fields literal_eval_qids
       [\<lparr>e_qid = Str ''Q1'', e_label = Str ''cultural exclusive'',
         e_cells = (\<lambda>field. Str ''[]'')(''heritage_status'' := Str ''[q1, q2]'')\<rparr>]
       list_fields Map.empty = Inl LiteralError"
    by (simp add: list_fields_def parse_cell_def lit_facts)
  then show ?thesis
    by (simp add: main_rbc_def lit_facts)
qed

text \<open>
  Claim C5, as the code has it. A cell that is not a string (a missing cell) is treated
  as the empty list, and the classification goes on: on a table in which every cell of the
  six list columns is missing or the text of a list of identifiers, the run gives one
  output row for every entity, with the result of the cascade on the lists of the entity,
  the empty list standing for each missing cell (a table without rows, and one in which
  every prediction is a missing label, end the run at the columns of the result). The run
  also gives the same result as with the text \<open>[]\<close> in place of each missing cell. A
  string cell of one of the six list columns that \<open>ast.literal_eval\<close> refuses ends the
  run with an exception, and so does a \<open>heritage_status\<close> cell with the text of a value
  that cannot be iterated, such as a number.
\<close>

theorem missing_cell_empty_malformed_aborts:
  "parse_cell literal_eval NaN = Inr (id_list [])
   \<and> ((\<forall>r \<in> set df. \<forall>field \<in> set list_fields.
          (case e_cells r field of
             NaN \<Rightarrow> ids r field = []
           | Str s \<Rightarrow> literal_eval s = Inr (id_list (ids r field))))
        \<longrightarrow> main_rbc literal_eval instance_csv culture_csv heritage_csv df =
             (if df = [] then Inl ColumnsError
              else if \<forall>r \<in> set df.
                        fst (rule_based_classifier (\<lambda>field. Some (ids r field))
                               (to_dict instance_csv) (to_dict culture_csv) (to_dict heritage_csv))
                          = NaN
                   then Inl StrAccessorError
              else Inr (map (\<lambda>r. output_row r
                          (rule_based_classifier (\<lambda>field. Some (ids r field))
                             (to_dict instance_csv) (to_dict culture_csv) (to_dict heritage_csv)))
                        df)))
   \<and> (\<forall>r field s e.
        r \<in> set df \<and> field \<in> set list_fields \<and> e_cells r field = Str s \<and> literal_eval s = Inl e
        \<longrightarrow> (\<exists>e'. main_rbc literal_eval instance_csv culture_csv heritage_csv df = Inl e'))
   \<and> (\<forall>r s.
        r \<in> set df \<and> e_cells r ''heritage_status'' = Str s \<and> literal_eval s = Inr PAtom
        \<longrightarrow> (\<exists>e'. main_rbc literal_eval instance_csv culture_csv heritage_csv df = Inl e'))
   \<and> (literal_eval ''[]'' = Inr (id_list [])
        \<longrightarrow> main_rbc literal_eval instance_csv culture_csv heritage_csv
              (map (\<lambda>r. r\<lparr>e_cells := (\<lambda>field. case e_cells r field of
                                           NaN \<Rightarrow> Str ''[]'' | Str s \<Rightarrow> Str s)\<rparr>) df)
            = main_rbc literal_eval instance_csv culture_csv heritage_csv df)"
proof -
  have a: "parse_cell literal_eval NaN = Inr (id_list [])"
    by (simp add: parse_cell_def id_list_def)
  have b: "(\<forall>r \<in> set df. \<forall>field \<in> set list_fields.
          (case e_cells r field of
             NaN \<Rightarrow> ids r field = []
           | Str s \<Rightarrow> literal_eval s = Inr (id_list (ids r field))))
        \<longrightarrow> main_rbc literal_eval instance_csv culture_csv heritage_csv df =
             (if df = [] then Inl ColumnsError
              else if \<forall>r \<in> set df.
                        fst (rule_based_classifier (\<lambda>field. Some (ids r field))
                               (to_dict instance_csv) (to_dict culture_csv) (to_dict heritage_csv))
                          = NaN
                   then Inl StrAccessorError
              else Inr (map (\<lambda>r. output_row r
                          (rule_based_classifier (\<lambda>field. Some (ids r field))
                             (to_dict instance_csv) (to_dict culture_csv) (to_dict heritage_csv)))
                        df))"
    by (rule impI) (rule main_rbc_lists)
  have c: "\<forall>r field s e.
        r \<in> set df \<and> field \<in> set list_fields \<and> e_cells r field = Str s \<and> literal_eval s = Inl e
        \<longrightarrow> (\<exists>e'. main_rbc literal_eval instance_csv culture_csv heritage_csv df = Inl e')"
    using main_rbc_Inl by blast
  have d: "\<forall>r s.
        r \<in> set df \<and> e_cells r ''heritage_status'' = Str s \<and> literal_eval s = Inr PAtom
        \<longrightarrow> (\<exists>e'. main_rbc literal_eval instance_csv culture_csv heritage_csv df = Inl e')"
    using main_rbc_not_iterable by blast
  have e: "literal_eval ''[]'' = Inr (id_list [])
        \<longrightarrow> main_rbc literal_eval instance_csv culture_csv heritage_csv
              (map (\<lambda>r. r\<lparr>e_cells := (\<lambda>field. case e_cells r field of
                                           NaN \<Rightarrow> Str ''[]'' | Str s \<Rightarrow> Str s)\<rparr>) df)
            = main_rbc literal_eval instance_csv culture_csv heritage_csv df"
    using main_rbc_missing by blast
  from a b c d e show ?thesis by (intro conjI)
qed

text \<open>
  The theorem at a table of two entities, the first with a missing \<open>heritage_status\<close>
  cell and the identifier \<open>Q2\<close> of the culture table in \<open>part_of_culture\<close>, the second
  with all six cells missing: the run gives the two output rows. Then at a table whose
  \<open>heritage_status\<close> cell is the text \<open>[q1, q2]\<close>, and at one where it is the text
  \<open>5\<close>, read as a number: the run ends with an exception.
\<close>

theorem missing_cell_empty_malformed_aborts_witness:
  "main_rbc literal_eval_qids [] [(Str ''q2'', Str ''oral tradition'')] []
       [\<lparr>e_qid = Str ''Q1'', e_label = Str ''cultural exclusive'',
         e_cells = (\<lambda>field. Str ''[]'')
            (''heritage_status'' := NaN, ''part_of_culture'' := Str ''['Q2']'')\<rparr>,
        \<lparr>e_qid = Str ''Q5'', e_label = Str ''cultural agnostic'', e_cells = (\<lambda>field. NaN)\<rparr>]
     = Inr [\<lparr>qid = Str ''Q1'', label = Str ''cultural exclusive'',
             prediction = Str ''Oral Tradition'', source = Str ''QID''\<rparr>,
            \<lparr>qid = Str ''Q5'', label = Str ''cultural agnostic'',
             prediction = Str ''Cultural Agnostic'', source = Str ''Agnostic''\<rparr>]
   \<and> (\<exists>e'. main_rbc literal_eval_qids [] [] []
       [\<lparr>e_qid = Str ''Q1'', e_label = Str ''cultural exclusive'',
         e_cells = (\<lambda>field. Str ''[]'')(''heritage_status'' := Str ''[q1, q2]'')\<rparr>] = Inl e')
   \<and> (\<exists>e'. main_rbc (\<lambda>s. if s = ''5'' then Inr PAtom else literal_eval_qids s) [] [] []
       [\<lparr>e_qid = Str ''Q1'', e_label = Str ''cultural exclusive'',
         e_cells = (\<lambda>field. Str ''[]'')(''heritage_status'' := Str ''5'')\<rparr>] = Inl e')
   \<and> main_rbc literal_eval_qids [] [] []
       (map (\<lambda>r. r\<lparr>e_cells := (\<lambda>field. case e_cells r field of
                                           NaN \<Rightarrow> Str ''[]'' | Str s \<Rightarrow> Str s)\<rparr>)
       [\<lparr>e_qid = Str ''Q1'', e_label = Str ''cultural exclusive'',
         e_cells = (\<lambda>field. Str ''[]'')(''heritage_status'' := NaN)\<rparr>])
     = main_rbc literal_eval_qids [] [] []
       [\<lparr>e_qid = Str ''Q1'', e_label = Str ''cultural exclusive'',
         e_cells = (\<lambda>field. Str ''[]'')(''heritage_status'' := NaN)\<rparr>]"
proof -
  let ?r1 = "\<lparr>e_qid = Str ''Q1'', e_label = Str ''cultural exclusive'',
         e_cells = (\<lambda>field. Str ''[]'')
            (''heritage_status'' := NaN, ''part_of_culture'' := Str ''['Q2']'')\<rparr>"
  let ?r2 = "\<lparr>e_qid = Str ''Q5'', e_label = Str ''cultural agnostic'', e_cells = (\<lambda>field. NaN)\<rparr>"
  let ?bad = "\<lparr>e_qid = Str ''Q1'', e_label = Str ''cultural exclusive'',
         e_cells = (\<lambda>field. Str ''[]'')(''heritage_status'' := Str ''[q1, q2]'')\<rparr>"
  let ?num = "\<lparr>e_qid = Str ''Q1'', e_label = Str ''cultural exclusive'',
         e_cells = (\<lambda>field. Str ''[]'')(''heritage_status'' := Str ''5'')\<rparr>"
  let ?gap = "\<lparr>e_qid = Str ''Q1'', e_label = Str ''cultural exclusive'',
         e_cells = (\<lambda>field. Str ''[]'')(''heritage_status'' := NaN)\<rparr>"
  let ?ids = "\<lambda>r field. if e_qid r = Str ''Q1'' \<and> field = ''part_of_culture''
                         then [''Q2''] else []"
  let ?ccsv = "[(Str ''q2'', Str ''oral tradition'')]"
  let ?ev = "\<lambda>s. if s = ''5'' then Inr PAtom else literal_eval_qids s"
  note t = missing_cell_empty_malformed_aborts
  have h0: "\<forall>r \<in> set [?r1, ?r2]. \<forall>field \<in> set list_fields.
          (case e_cells r field of
             NaN \<Rightarrow> ?ids r field = []
           | Str s \<Rightarrow> literal_eval_qids s = Inr (id_list (?ids r field)))"
    by (simp add: list_fields_def lit_facts)
  have g1: "rule_based_classifier
       (\<lambda>field. Some (if field = ''part_of_culture'' then [''Q2''] else []))
       (to_dict []) (to_dict ?ccsv) (to_dict []) = (Str ''oral tradition'', ''QID'')"
    unfolding to_dict_one to_dict_Nil by code_simp
  have g2: "rule_based_classifier (\<lambda>field. Some [])
       (to_dict []) (to_dict ?ccsv) (to_dict []) = (Str ''Cultural Agnostic'', ''Agnostic'')"
    unfolding to_dict_one to_dict_Nil by code_simp
  have g3: "str_title (Str ''oral tradition'') = Str ''Oral Tradition''"
    "str_title (Str ''Cultural Agnostic'') = Str ''Cultural Agnostic''"
    by code_simp+
  have h1: "?bad \<in> set [?bad] \<and> ''heritage_status'' \<in> set list_fields \<and>
      e_cells ?bad ''heritage_status'' = Str ''[q1, q2]'' \<and>
      literal_eval_qids ''[q1, q2]'' = Inl LiteralError"
    by (simp add: list_fields_def lit_facts)
  have h2: "?num \<in> set [?num] \<and> e_cells ?num ''heritage_status'' = Str ''5'' \<and>
      ?ev ''5'' = Inr PAtom"
    by simp
  have h3: "literal_eval_qids ''[]'' = Inr (id_list [])"
    by (rule lit_facts)
  from t [where literal_eval = literal_eval_qids and df = "[?r1, ?r2]" and ids = ?ids
      and instance_csv = "[]" and culture_csv = ?ccsv and heritage_csv = "[]",
      THEN conjunct2, THEN conjunct1, THEN mp, OF h0]
  have c1: "main_rbc literal_eval_qids [] ?ccsv [] [?r1, ?r2]
     = Inr [\<lparr>qid = Str ''Q1'', label = Str ''cultural exclusive'',
             prediction = Str ''Oral Tradition'', source = Str ''QID''\<rparr>,
            \<lparr>qid = Str ''Q5'', label = Str ''cultural agnostic'',
             prediction = Str ''Cultural Agnostic'', source = Str ''Agnostic''\<rparr>]"
    by (simp add: g1 g2 g3 output_row_def)
  from t [where literal_eval = literal_eval_qids and df = "[?bad]"
      and instance_csv = "[]" and culture_csv = "[]" and heritage_csv = "[]",
      THEN conjunct2, THEN conjunct2, THEN conjunct1, rule_format, OF h1]
  have c2: "\<exists>e'. main_rbc literal_eval_qids [] [] [] [?bad] = Inl e'" .
  from t [where literal_eval = ?ev and df = "[?num]"
      and instance_csv = "[]" and culture_csv = "[]" and heritage_csv = "[]",
      THEN conjunct2, THEN conjunct2, THEN conjunct2, THEN conjunct1, rule_format, OF h2]
  have c3: "\<exists>e'. main_rbc ?ev [] [] [] [?num] = Inl e'" .
  from t [where literal_eval = literal_eval_qids and df = "[?gap]"
      and instance_csv = "[]" and culture_csv = "[]" and heritage_csv = "[]",
      THEN conjunct2, THEN conjunct2, THEN conjunct2, THEN conjunct2, THEN mp, OF h3]
  have c4: "main_rbc literal_eval_qids [] [] []
       (map (\<lambda>r. r\<lparr>e_cells := (\<lambda>field. case e_cells r field of
                                           NaN \<Rightarrow> Str ''[]'' | Str s \<Rightarrow> Str s)\<rparr>) [?gap])
     = main_rbc literal_eval_qids [] [] [] [?gap]" .
  show ?thesis by (rule conjI [OF c1 conjI [OF c2 conjI [OF c3 c4]]])
qed

end
